theory Spec2Isabelle
  imports Complex_Main "HOL-Library.Sublist" "HOL-Library.AList"
begin

section \<open>Values, exceptions and queues\<close>

text \<open>
  The scraper moves JSON-derived Python values between three queues and a store file.
  A value is what \<^verbatim>\<open>json.load\<close> or \<^verbatim>\<open>Response.json()\<close> returns. A dict is an
  association list in insertion order; in a value that came out of the JSON parser the
  keys of a dict are distinct and no two parts of a value share an object. Numbers are
  integers: the code never computes with a number, it only carries it along. A string
  is the list of its characters.
\<close>

datatype json =
    JNull
  | JBool bool
  | JInt int
  | JStr string
  | JArr "json list"
  | JObj "(string \<times> json) list"

text \<open>The Python exceptions that the modelled code can meet.\<close>

datatype exn =
    KeyError json
  | TypeError
  | AttributeError
  | IndexError
  | ValueError
  | OSError
  | UnicodeDecodeError
  | RecursionError
  | RequestException

text \<open>\<^verbatim>\<open>obj[key]\<close> for a string key: only a dict accepts it.\<close>

fun getitem :: "json \<Rightarrow> string \<Rightarrow> exn + json" where
  "getitem (JObj kvs) k =
     (case map_of kvs k of None \<Rightarrow> Inl (KeyError (JStr k)) | Some v \<Rightarrow> Inr v)"
| "getitem _ k = Inl TypeError"

text \<open>
  \<^verbatim>\<open>queue.Queue\<close>: the waiting items and the counter of unfinished tasks. \<^verbatim>\<open>put\<close>
  appends and counts one more unfinished task; \<^verbatim>\<open>get\<close> takes the head and leaves the
  counter alone; \<^verbatim>\<open>task_done\<close> counts one task less and raises ValueError when called
  more often than items were put.
\<close>

record 'a pyqueue =
  qitems :: "'a list"
  unfinished_tasks :: nat

definition put :: "'a \<Rightarrow> 'a pyqueue \<Rightarrow> 'a pyqueue" where
  "put x q = q\<lparr>qitems := qitems q @ [x], unfinished_tasks := Suc (unfinished_tasks q)\<rparr>"

definition task_done :: "'a pyqueue \<Rightarrow> exn + 'a pyqueue" where
  "task_done q =
     (if unfinished_tasks q = 0 then Inl ValueError
      else Inr (q\<lparr>unfinished_tasks := unfinished_tasks q - 1\<rparr>))"

section \<open>The store file (scraper.py, persistence)\<close>

text \<open>
  Files live in the results folder and are named by their file name there. A file is
  represented by what \<^verbatim>\<open>json.load\<close> makes of its bytes: the parsed value; bytes on
  which it raises \<^verbatim>\<open>json.JSONDecodeError\<close> (\<open>Malformed\<close>); or bytes on which it raises
  another exception (\<open>Unloadable\<close>, with the exception): UnicodeDecodeError for bytes
  that do not decode, ValueError for an integer of too many digits, RecursionError for
  too deep nesting. The file system also keeps the trace of the calls made on it, so
  that "nothing was read or written" can be said.
\<close>

datatype content = Parsed json | Malformed string | Unloadable exn string

datatype fs_op =
    OpExists string
  | OpRead string
  | OpWrite string
  | OpRemove string
  | OpRename string string

record filesystem =
  fs_files :: "string \<Rightarrow> content option"
  fs_trace :: "fs_op list"

text \<open>
  One flush attempt meets at most one failure, since the first exception ends it. The
  fault says which call fails if it is made: reading the store (OSError on open or
  read), writing the temporary file (the argument is what the temporary file holds
  afterwards: nothing new when \<^verbatim>\<open>open\<close> itself failed), removing the old store, or the
  rename. The files that a failure at a step leaves behind are the files that a reader
  finds while the flush is at that step.
\<close>

datatype fault =
    NoFault
  | LoadFault
  | WriteFault "content option"
  | RemoveFault
  | RenameFault

definition BATCH_SIZE :: nat where
  "BATCH_SIZE = 10000"

definition TIMEOUT_SECONDS :: real where
  "TIMEOUT_SECONDS = 30"

definition fs_call :: "fs_op \<Rightarrow> filesystem \<Rightarrow> filesystem" where
  "fs_call op fs = fs\<lparr>fs_trace := fs_trace fs @ [op]\<rparr>"

definition fs_write :: "string \<Rightarrow> content \<Rightarrow> filesystem \<Rightarrow> filesystem" where
  "fs_write p c fs = fs\<lparr>fs_files := (fs_files fs)(p \<mapsto> c)\<rparr>"

definition fs_remove :: "string \<Rightarrow> filesystem \<Rightarrow> filesystem" where
  "fs_remove p fs = fs\<lparr>fs_files := (fs_files fs)(p := None)\<rparr>"

definition fs_rename :: "string \<Rightarrow> string \<Rightarrow> filesystem \<Rightarrow> filesystem" where
  "fs_rename p q fs = fs\<lparr>fs_files := (fs_files fs)(q := fs_files fs p, p := None)\<rparr>"

text \<open>
  \<^verbatim>\<open>load_existing_data\<close>: a missing file is the empty list; a file on which
  \<^verbatim>\<open>json.load\<close> raises JSONDecodeError is the empty list, since that is the one
  exception the function catches; any other exception, of \<^verbatim>\<open>open\<close> or of
  \<^verbatim>\<open>json.load\<close>, propagates to the caller.
\<close>

definition load_existing_data :: "string \<Rightarrow> fault \<Rightarrow> filesystem \<Rightarrow> (exn + json) \<times> filesystem" where
  "load_existing_data filename flt fs =
     (let fs1 = fs_call (OpExists filename) fs in
      case fs_files fs1 filename of
        None \<Rightarrow> (Inr (JArr []), fs1)
      | Some c \<Rightarrow>
          (let fs2 = fs_call (OpRead filename) fs1 in
           if flt = LoadFault then (Inl OSError, fs2)
           else (case c of
                   Parsed v \<Rightarrow> (Inr v, fs2)
                 | Malformed bytes \<Rightarrow> (Inr (JArr []), fs2)
                 | Unloadable e bytes \<Rightarrow> (Inl e, fs2))))"

text \<open>
  \<^verbatim>\<open>save_batch_to_file\<close>: load, extend (only a list has \<^verbatim>\<open>extend\<close>; anything else is
  an AttributeError), write the temporary file \<^verbatim>\<open>_<filename>\<close>, remove the old store if
  it exists, sleep, rename. Every exception is caught and turns into \<^verbatim>\<open>False\<close>.
\<close>

definition save_batch_to_file :: "string \<Rightarrow> json list \<Rightarrow> fault \<Rightarrow> filesystem \<Rightarrow> bool \<times> filesystem" where
  "save_batch_to_file filename batch flt fs =
     (case load_existing_data filename flt fs of
        (Inl e, fs1) \<Rightarrow> (False, fs1)
      | (Inr existing_data, fs1) \<Rightarrow>
          (case existing_data of
             JArr xs \<Rightarrow>
               (let merged = JArr (xs @ batch);
                    temp_filename = ''_'' @ filename;
                    final_filename = filename;
                    fs2 = fs_call (OpWrite temp_filename) fs1
                in case flt of
                     WriteFault None \<Rightarrow> (False, fs2)
                   | WriteFault (Some partial) \<Rightarrow> (False, fs_write temp_filename partial fs2)
                   | _ \<Rightarrow>
                       (let fs3 = fs_write temp_filename (Parsed merged) fs2;
                            fs4 = fs_call (OpExists final_filename) fs3
                        in if fs_files fs4 final_filename \<noteq> None \<and> flt = RemoveFault
                           then (False, fs_call (OpRemove final_filename) fs4)
                           else
                             (let fs5 = (if fs_files fs4 final_filename \<noteq> None
                                         then fs_remove final_filename
                                                (fs_call (OpRemove final_filename) fs4)
                                         else fs4);
                                  fs6 = fs_call (OpRename temp_filename final_filename) fs5
                              in if flt = RenameFault then (False, fs6)
                                 else (True, fs_rename temp_filename final_filename fs6))))
           | _ \<Rightarrow> (False, fs1)))"

text \<open>\<^verbatim>\<open>process_batch\<close>: flush a non-empty batch and clear it when the flush returned True.\<close>

definition process_batch :: "json list \<Rightarrow> string \<Rightarrow> fault \<Rightarrow> filesystem \<Rightarrow> json list \<times> filesystem" where
  "process_batch batch filename flt fs =
     (if batch \<noteq> [] then
        (case save_batch_to_file filename batch flt fs of
           (True, fs') \<Rightarrow> ([], fs')
         | (False, fs') \<Rightarrow> (batch, fs'))
      else (batch, fs))"


section \<open>The pipeline (scraper.py, workers)\<close>

text \<open>
  The state that the three kinds of worker share: the three module-level queues, the
  errors logged by the two fetch workers (\<^verbatim>\<open>logger.error\<close> in their handlers), the
  file system, and the two local variables of the single persister.
\<close>

record pipeline =
  search_page_request_queue :: "json pyqueue"
  car_data_request_queue :: "(string \<times> json) pyqueue"
  car_data_result_queue :: "json pyqueue"
  error_log :: "exn list"
  store :: filesystem
  batch :: "json list"
  last_save_time :: real

text \<open>
  One turn of the loop of \<^verbatim>\<open>save_car_data_worker\<close>. \<^verbatim>\<open>get(timeout=TIMEOUT_SECONDS)\<close>
  returns the head of the result queue, or raises \<^verbatim>\<open>queue.Empty\<close> when nothing is
  there in time. The two readings of the clock are inputs: \<open>now_check\<close> in the condition,
  \<open>now_after\<close> after \<^verbatim>\<open>process_batch\<close>. A ValueError of \<^verbatim>\<open>task_done\<close> is not caught by
  the loop.
\<close>

definition save_car_data_worker_iter ::
  "string \<Rightarrow> fault \<Rightarrow> real \<Rightarrow> real \<Rightarrow> pipeline \<Rightarrow> exn + pipeline" where
  "save_car_data_worker_iter FILENAME flt now_check now_after st =
     (case qitems (car_data_result_queue st) of
        [] \<Rightarrow>
          (case process_batch (batch st) FILENAME flt (store st) of
             (b, fs') \<Rightarrow> Inr (st\<lparr>batch := b, last_save_time := now_after, store := fs'\<rparr>))
      | data # rest \<Rightarrow>
          (let q1 = (car_data_result_queue st)\<lparr>qitems := rest\<rparr>;
               b1 = batch st @ [data];
               st1 = st\<lparr>batch := b1, car_data_result_queue := q1\<rparr>;
               st2 = (if length b1 \<ge> BATCH_SIZE
                         \<or> now_check - last_save_time st \<ge> TIMEOUT_SECONDS
                      then (case process_batch b1 FILENAME flt (store st) of
                              (b, fs') \<Rightarrow>
                                st1\<lparr>batch := b, last_save_time := now_after, store := fs'\<rparr>)
                      else st1)
           in case task_done (car_data_result_queue st2) of
                Inl e \<Rightarrow> Inl e
              | Inr q2 \<Rightarrow> Inr (st2\<lparr>car_data_result_queue := q2\<rparr>)))"

definition CAR_DATA_LINK :: string where
  "CAR_DATA_LINK = ''https://api.cars.co.za/fw/public/v2/specs''"

text \<open>
  The dataclasses. Their fields are annotated \<^verbatim>\<open>str\<close>, \<^verbatim>\<open>List[Dict]\<close> and \<^verbatim>\<open>int\<close>, but
  nothing checks the annotations: a field holds whatever value the response had.
\<close>

record SearchPageLinks =
  link_self :: json
  link_first :: json
  link_next :: json
  link_prev :: json
  link_last :: json

record SearchPageResponse =
  links :: SearchPageLinks
  data :: json
  current_page :: json
  total_pages :: json

definition link_fields :: "string list" where
  "link_fields = [''self'', ''first'', ''next'', ''prev'', ''last'']"

definition field_or_default :: "(string \<times> json) list \<Rightarrow> string \<Rightarrow> json" where
  "field_or_default kvs k = (case map_of kvs k of None \<Rightarrow> JStr '''' | Some v \<Rightarrow> v)"

text \<open>
  \<^verbatim>\<open>SearchPageLinks(**d)\<close>: \<open>d\<close> must be a mapping whose keys are field names; a missing
  field takes its default, the empty string.
\<close>

fun new_search_page_links :: "json \<Rightarrow> exn + SearchPageLinks" where
  "new_search_page_links (JObj kvs) =
     (if list_all (\<lambda>k. k \<in> set link_fields) (map fst kvs)
      then Inr \<lparr>link_self = field_or_default kvs ''self'',
                link_first = field_or_default kvs ''first'',
                link_next = field_or_default kvs ''next'',
                link_prev = field_or_default kvs ''prev'',
                link_last = field_or_default kvs ''last''\<rparr>
      else Inl TypeError)"
| "new_search_page_links _ = Inl TypeError"

definition new_search_page_response :: "json \<Rightarrow> exn + SearchPageResponse" where
  "new_search_page_response search_page_response =
     (case getitem search_page_response ''links'' of Inl e \<Rightarrow> Inl e | Inr l \<Rightarrow>
     (case new_search_page_links l of Inl e \<Rightarrow> Inl e | Inr ls \<Rightarrow>
     (case getitem search_page_response ''data'' of Inl e \<Rightarrow> Inl e | Inr d \<Rightarrow>
     (case getitem search_page_response ''meta'' of Inl e \<Rightarrow> Inl e | Inr m \<Rightarrow>
     (case getitem m ''currentPage'' of Inl e \<Rightarrow> Inl e | Inr cp \<Rightarrow>
     (case getitem m ''totalPages'' of Inl e \<Rightarrow> Inl e | Inr tp \<Rightarrow>
        Inr \<lparr>links = ls, data = d, current_page = cp, total_pages = tp\<rparr>))))))"

text \<open>Iterating a value: a list gives its elements, a dict its keys, a string its characters.\<close>

fun py_iter :: "json \<Rightarrow> exn + json list" where
  "py_iter (JArr xs) = Inr xs"
| "py_iter (JObj kvs) = Inr (map (\<lambda>kv. JStr (fst kv)) kvs)"
| "py_iter (JStr s) = Inr (map (\<lambda>c. JStr [c]) s)"
| "py_iter _ = Inl TypeError"

text \<open>
  What \<^verbatim>\<open>get_car_data\<close> yields for one listing. The f-string turns the code and the year
  into text with Python's built-in conversion, which is the parameter \<open>fmt\<close>.
\<close>

definition car_data_of :: "(json \<Rightarrow> string) \<Rightarrow> json \<Rightarrow> exn + (string \<times> json)" where
  "car_data_of fmt listing =
     (case getitem listing ''attributes'' of Inl e \<Rightarrow> Inl e | Inr car_attrs \<Rightarrow>
     (case getitem car_attrs ''code'' of Inl e \<Rightarrow> Inl e | Inr code \<Rightarrow>
     (case getitem car_attrs ''year'' of Inl e \<Rightarrow> Inl e | Inr year \<Rightarrow>
        Inr (CAR_DATA_LINK @ ''/'' @ fmt code @ ''/'' @ fmt year, car_attrs))))"

text \<open>
  The loop \<^verbatim>\<open>for car_data_link, attrs in response.get_car_data(): put(...)\<close>. The
  generator is lazy: a listing that raises stops the loop after the requests of the
  listings before it were put.
\<close>

fun put_car_data ::
  "(json \<Rightarrow> string) \<Rightarrow> json list \<Rightarrow> (string \<times> json) pyqueue
     \<Rightarrow> exn option \<times> (string \<times> json) pyqueue" where
  "put_car_data fmt [] q = (None, q)"
| "put_car_data fmt (listing # ls) q =
     (case car_data_of fmt listing of
        Inl e \<Rightarrow> (Some e, q)
      | Inr req \<Rightarrow> put_car_data fmt ls (put req q))"

text \<open>
  \<^verbatim>\<open>f"{x:<5}"\<close> raises TypeError for None, a list and a dict, whose \<^verbatim>\<open>__format__\<close>
  takes no format specification.
\<close>

fun formattable :: "json \<Rightarrow> bool" where
  "formattable JNull = False"
| "formattable (JArr xs) = False"
| "formattable (JObj kvs) = False"
| "formattable _ = True"

text \<open>
  The \<^verbatim>\<open>try\<close> block of \<^verbatim>\<open>search_page_worker\<close>. \<open>fetch\<close> stands for the network:
  \<^verbatim>\<open>s.get(link)\<close>, \<^verbatim>\<open>raise_for_status()\<close> and \<^verbatim>\<open>json()\<close> together give the body or
  raise. The result is the exception that left the block, if any, and the state.
\<close>

definition search_page_work ::
  "(json \<Rightarrow> exn + json) \<Rightarrow> (json \<Rightarrow> string) \<Rightarrow> json \<Rightarrow> pipeline \<Rightarrow> exn option \<times> pipeline" where
  "search_page_work fetch fmt link st =
     (case fetch link of Inl e \<Rightarrow> (Some e, st) | Inr body \<Rightarrow>
     (case new_search_page_response body of Inl e \<Rightarrow> (Some e, st) | Inr response \<Rightarrow>
     (case py_iter (data response) of Inl e \<Rightarrow> (Some e, st) | Inr listings \<Rightarrow>
     (case put_car_data fmt listings (car_data_request_queue st) of
        (Some e, q) \<Rightarrow> (Some e, st\<lparr>car_data_request_queue := q\<rparr>)
      | (None, q) \<Rightarrow>
          (let st1 = st\<lparr>car_data_request_queue := q,
                        search_page_request_queue :=
                          put (link_next (links response)) (search_page_request_queue st)\<rparr>
           in if formattable (current_page response) \<and> formattable (total_pages response)
              then (None, st1)
              else (Some TypeError, st1))))))"

text \<open>
  One turn of the loop of \<^verbatim>\<open>search_page_worker\<close>: \<^verbatim>\<open>get()\<close> (which blocks on an empty
  queue: no turn, \<open>None\<close>), the \<^verbatim>\<open>try\<close> block with its handler, \<^verbatim>\<open>task_done()\<close>.
\<close>

definition search_page_worker_iter ::
  "(json \<Rightarrow> exn + json) \<Rightarrow> (json \<Rightarrow> string) \<Rightarrow> pipeline \<Rightarrow> (exn + pipeline) option" where
  "search_page_worker_iter fetch fmt st =
     (case qitems (search_page_request_queue st) of
        [] \<Rightarrow> None
      | link # rest \<Rightarrow>
          Some
            (let st0 = st\<lparr>search_page_request_queue :=
                             (search_page_request_queue st)\<lparr>qitems := rest\<rparr>\<rparr>
             in case search_page_work fetch fmt link st0 of
                  (err, st1) \<Rightarrow>
                    (let st2 = (case err of
                                  None \<Rightarrow> st1
                                | Some e \<Rightarrow> st1\<lparr>error_log := error_log st1 @ [e]\<rparr>)
                     in case task_done (search_page_request_queue st2) of
                          Inl e \<Rightarrow> Inl e
                        | Inr q \<Rightarrow> Inr (st2\<lparr>search_page_request_queue := q\<rparr>))))"

text \<open>\<^verbatim>\<open>obj[0]\<close>: the first element of a list, the first character of a string.\<close>

fun getitem0 :: "json \<Rightarrow> exn + json" where
  "getitem0 (JArr []) = Inl IndexError"
| "getitem0 (JArr (x # xs)) = Inr x"
| "getitem0 (JStr []) = Inl IndexError"
| "getitem0 (JStr (c # cs)) = Inr (JStr [c])"
| "getitem0 (JObj kvs) = Inl (KeyError (JInt 0))"
| "getitem0 _ = Inl TypeError"

text \<open>The \<^verbatim>\<open>try\<close> block of \<^verbatim>\<open>car_data_worker\<close>.\<close>

definition car_data_work ::
  "(json \<Rightarrow> exn + json) \<Rightarrow> string \<Rightarrow> json \<Rightarrow> pipeline \<Rightarrow> exn option \<times> pipeline" where
  "car_data_work fetch link car_attrs st =
     (case fetch (JStr link) of Inl e \<Rightarrow> (Some e, st) | Inr body \<Rightarrow>
     (case getitem body ''data'' of Inl e \<Rightarrow> (Some e, st) | Inr d \<Rightarrow>
     (case getitem0 d of Inl e \<Rightarrow> (Some e, st) | Inr car_specs \<Rightarrow>
        (None, st\<lparr>car_data_result_queue :=
                    put (JObj [(''car_attrs'', car_attrs), (''car_specs'', car_specs)])
                        (car_data_result_queue st)\<rparr>))))"

text \<open>One turn of the loop of \<^verbatim>\<open>car_data_worker\<close>.\<close>

definition car_data_worker_iter ::
  "(json \<Rightarrow> exn + json) \<Rightarrow> pipeline \<Rightarrow> (exn + pipeline) option" where
  "car_data_worker_iter fetch st =
     (case qitems (car_data_request_queue st) of
        [] \<Rightarrow> None
      | (link, car_attrs) # rest \<Rightarrow>
          Some
            (let st0 = st\<lparr>car_data_request_queue :=
                             (car_data_request_queue st)\<lparr>qitems := rest\<rparr>\<rparr>
             in case car_data_work fetch link car_attrs st0 of
                  (err, st1) \<Rightarrow>
                    (let st2 = (case err of
                                  None \<Rightarrow> st1
                                | Some e \<Rightarrow> st1\<lparr>error_log := error_log st1 @ [e]\<rparr>)
                     in case task_done (car_data_request_queue st2) of
                          Inl e \<Rightarrow> Inl e
                        | Inr q \<Rightarrow> Inr (st2\<lparr>car_data_request_queue := q\<rparr>))))"

section \<open>Flattening a stored record (parser.py)\<close>

text \<open>
  \<^verbatim>\<open>x.replace(" ", "_").lower()\<close>: only a string has \<^verbatim>\<open>replace\<close>. Python's
  \<^verbatim>\<open>str.lower\<close> is the parameter \<open>lower\<close>.
\<close>

fun snake :: "(string \<Rightarrow> string) \<Rightarrow> json \<Rightarrow> exn + string" where
  "snake lower (JStr s) = Inr (lower (map (\<lambda>c. if c = CHR '' '' then CHR ''_'' else c) s))"
| "snake lower _ = Inl AttributeError"

fun is_str :: "json \<Rightarrow> bool" where
  "is_str (JStr s) = True"
| "is_str _ = False"

fun str_of :: "json \<Rightarrow> string" where
  "str_of (JStr s) = s"
| "str_of _ = []"

fun intersperse_comma :: "string list \<Rightarrow> string" where
  "intersperse_comma [] = []"
| "intersperse_comma [s] = s"
| "intersperse_comma (s # t # ss) = s @ '','' @ intersperse_comma (t # ss)"

text \<open>\<^verbatim>\<open>",".join(x)\<close>: \<open>x\<close> must be iterable and give strings only.\<close>

definition join_comma :: "json \<Rightarrow> exn + string" where
  "join_comma x =
     (case py_iter x of
        Inl e \<Rightarrow> Inl e
      | Inr xs \<Rightarrow>
          if list_all is_str xs then Inr (intersperse_comma (map str_of xs))
          else Inl TypeError)"

text \<open>\<^verbatim>\<open>d.update(new)\<close> and \<^verbatim>\<open>{**d, **new}\<close>: the entries of \<open>new\<close>, stored one by one.\<close>

definition dict_update :: "(string \<times> json) list \<Rightarrow> (string \<times> json) list \<Rightarrow> (string \<times> json) list" where
  "dict_update d new = foldl (\<lambda>acc kv. AList.update (fst kv) (snd kv) acc) d new"

text \<open>The comprehension \<^verbatim>\<open>{f"image_{k}": v for k, v in image.items()}\<close>.\<close>

definition image_entries :: "(string \<times> json) list \<Rightarrow> (string \<times> json) list" where
  "image_entries entries = map (\<lambda>kv. (''image_'' @ fst kv, snd kv)) entries"

text \<open>The inner loop over \<^verbatim>\<open>spec_dict['attrs']\<close>, filling \<^verbatim>\<open>new_car_spec\<close>.\<close>

fun spec_items ::
  "(string \<Rightarrow> string) \<Rightarrow> string \<Rightarrow> json list \<Rightarrow> (string \<times> json) list
     \<Rightarrow> exn + (string \<times> json) list" where
  "spec_items lower spec_name [] new_car_spec = Inr new_car_spec"
| "spec_items lower spec_name (spec_item # rest) new_car_spec =
     (case getitem spec_item ''label'' of Inl e \<Rightarrow> Inl e | Inr l \<Rightarrow>
     (case snake lower l of Inl e \<Rightarrow> Inl e | Inr l' \<Rightarrow>
     (case getitem spec_item ''value'' of Inl e \<Rightarrow> Inl e | Inr v \<Rightarrow>
        spec_items lower spec_name rest
          (AList.update (spec_name @ ''_'' @ l') v new_car_spec))))"

text \<open>The outer loop over \<^verbatim>\<open>car_specs\<close>.\<close>

fun spec_dicts ::
  "(string \<Rightarrow> string) \<Rightarrow> json list \<Rightarrow> (string \<times> json) list
     \<Rightarrow> exn + (string \<times> json) list" where
  "spec_dicts lower [] new_car_spec = Inr new_car_spec"
| "spec_dicts lower (spec_dict # rest) new_car_spec =
     (case getitem spec_dict ''title'' of Inl e \<Rightarrow> Inl e | Inr t \<Rightarrow>
     (case snake lower t of Inl e \<Rightarrow> Inl e | Inr spec_name \<Rightarrow>
     (case getitem spec_dict ''attrs'' of Inl e \<Rightarrow> Inl e | Inr a \<Rightarrow>
     (case py_iter a of Inl e \<Rightarrow> Inl e | Inr its \<Rightarrow>
     (case spec_items lower spec_name its new_car_spec of Inl e \<Rightarrow> Inl e | Inr acc \<Rightarrow>
        spec_dicts lower rest acc)))))"

text \<open>
  \<^verbatim>\<open>car_attrs\<close> is the very dict that sits in \<^verbatim>\<open>car_data\<close>, and the function writes to
  it. \<open>with_car_attrs\<close> is \<^verbatim>\<open>car_data\<close> seen after such a write.
\<close>

fun with_car_attrs :: "json \<Rightarrow> (string \<times> json) list \<Rightarrow> json" where
  "with_car_attrs (JObj kvs) a = JObj (AList.update ''car_attrs'' (JObj a) kvs)"
| "with_car_attrs car_data a = car_data"

text \<open>
  \<^verbatim>\<open>flatten_car_data\<close> gives what the call returns or raises, and what the argument
  \<^verbatim>\<open>car_data\<close> holds when the call is over.
\<close>

definition flatten_car_data :: "(string \<Rightarrow> string) \<Rightarrow> json \<Rightarrow> (exn + json) \<times> json" where
  "flatten_car_data lower car_data =
     (case getitem car_data ''car_attrs'' of Inl e \<Rightarrow> (Inl e, car_data) | Inr car_attrs \<Rightarrow>
     (case getitem car_data ''car_specs'' of Inl e \<Rightarrow> (Inl e, car_data) | Inr car_specs \<Rightarrow>
     (case getitem car_attrs ''seller_types'' of Inl e \<Rightarrow> (Inl e, car_data) | Inr types \<Rightarrow>
     (case join_comma types of Inl e \<Rightarrow> (Inl e, car_data) | Inr joined \<Rightarrow>
     (case car_attrs of
        JObj kvs \<Rightarrow>
          (let a1 = AList.update ''seller_types'' (JStr joined) kvs in
           case map_of a1 ''image'' of
             None \<Rightarrow> (Inl (KeyError (JStr ''image'')), with_car_attrs car_data a1)
           | Some img \<Rightarrow>
               (let a2 = AList.delete ''image'' a1 in
                case img of
                  JObj entries \<Rightarrow>
                    (let a3 = dict_update a2 (image_entries entries) in
                     case py_iter car_specs of
                       Inl e \<Rightarrow> (Inl e, with_car_attrs car_data a3)
                     | Inr specs \<Rightarrow>
                         (case spec_dicts lower specs [] of
                            Inl e \<Rightarrow> (Inl e, with_car_attrs car_data a3)
                          | Inr new_car_spec \<Rightarrow>
                              (Inr (JObj (dict_update a3 new_car_spec)),
                               with_car_attrs car_data a3)))
                | _ \<Rightarrow> (Inl AttributeError, with_car_attrs car_data a2)))
      | _ \<Rightarrow> (Inl TypeError, car_data))))))"

section \<open>Notions used to state the properties\<close>

text \<open>
  The records that the store holds for a reader: the list in the file, and nothing when
  the file is missing or does not load as a list.
\<close>

definition readable_contents :: "filesystem \<Rightarrow> string \<Rightarrow> json list" where
  "readable_contents fs filename =
     (case fs_files fs filename of
        Some (Parsed (JArr xs)) \<Rightarrow> xs
      | _ \<Rightarrow> [])"

text \<open>
  \<^verbatim>\<open>load_existing_data\<close> returns a list, as it is annotated to: the file is missing,
  or raises JSONDecodeError, or holds a JSON array.
\<close>

definition loads_as_list :: "filesystem \<Rightarrow> string \<Rightarrow> bool" where
  "loads_as_list fs filename =
     (case fs_files fs filename of
        None \<Rightarrow> True
      | Some (Malformed bytes) \<Rightarrow> True
      | Some (Parsed (JArr xs)) \<Rightarrow> True
      | _ \<Rightarrow> False)"

text \<open>
  A flush was attempted between two states of the file system: the trace went on with
  the first call that \<^verbatim>\<open>save_batch_to_file\<close> makes.
\<close>

definition flush_attempted :: "string \<Rightarrow> filesystem \<Rightarrow> filesystem \<Rightarrow> bool" where
  "flush_attempted filename fs fs' = prefix (fs_trace fs @ [OpExists filename]) (fs_trace fs')"

text \<open>A seed attribute of a stored record: \<^verbatim>\<open>car_data['car_attrs'][k]\<close>.\<close>

definition seed_attr :: "json \<Rightarrow> string \<Rightarrow> exn + json" where
  "seed_attr car_data k =
     (case getitem car_data ''car_attrs'' of Inl e \<Rightarrow> Inl e | Inr a \<Rightarrow> getitem a k)"

section \<open>Example inputs\<close>

text \<open>
  Python's conversion of a scalar to text, for the codes and years of the examples
  (which are strings and integers; a list or a dict does not occur there and is given
  the empty text).
\<close>

fun dec_nat :: "nat \<Rightarrow> string" where
  "dec_nat n =
     (if n < 10 then [''0123456789'' ! n]
      else dec_nat (n div 10) @ [''0123456789'' ! (n mod 10)])"

declare dec_nat.simps [simp del]

fun fmt_scalar :: "json \<Rightarrow> string" where
  "fmt_scalar (JStr s) = s"
| "fmt_scalar (JInt i) = (if i < 0 then ''-'' @ dec_nat (nat (- i)) else dec_nat (nat i))"
| "fmt_scalar (JBool b) = (if b then ''True'' else ''False'')"
| "fmt_scalar JNull = ''None''"
| "fmt_scalar _ = []"

definition empty_queue :: "'a pyqueue" where
  "empty_queue = \<lparr>qitems = [], unfinished_tasks = 0\<rparr>"

text \<open>
  \<^verbatim>\<open>str.lower\<close> on text whose letters are ASCII letters, for the examples.
\<close>

definition lower_ascii :: "string \<Rightarrow> string" where
  "lower_ascii s =
     map (\<lambda>c. case map_of (zip ''ABCDEFGHIJKLMNOPQRSTUVWXYZ'' ''abcdefghijklmnopqrstuvwxyz'') c of
                 Some d \<Rightarrow> d
               | None \<Rightarrow> c) s"

text \<open>A store file with one record in it.\<close>

definition store0 :: filesystem where
  "store0 = \<lparr>fs_files = (\<lambda>p. None)(''run1.json'' \<mapsto> Parsed (JArr [JStr ''old''])),
             fs_trace = []\<rparr>"

text \<open>
  A store file that holds one integer of 5000 digits in a list: \<^verbatim>\<open>json.load\<close> raises
  ValueError on it (the limit is 4300 digits), which is not a JSONDecodeError.
\<close>

definition store_overlong :: filesystem where
  "store_overlong =
     \<lparr>fs_files = (\<lambda>p. None)(''run1.json'' \<mapsto>
                   Unloadable ValueError (''['' @ replicate 5000 (CHR ''1'') @ '']'')),
      fs_trace = []\<rparr>"

text \<open>The last page of a search: two listings, and the empty string as next link.\<close>

definition seed_abc :: json where
  "seed_abc = JObj [(''code'', JStr ''ABC''), (''year'', JInt 2020)]"

definition seed_def :: json where
  "seed_def = JObj [(''code'', JStr ''DEF''), (''year'', JInt 2021)]"

definition page_listings :: "json list" where
  "page_listings = [JObj [(''attributes'', seed_abc)], JObj [(''attributes'', seed_def)]]"

definition page_body :: json where
  "page_body = JObj [
     (''links'', JObj [(''self'', JStr ''page7''), (''next'', JStr [])]),
     (''data'', JArr page_listings),
     (''meta'', JObj [(''currentPage'', JInt 7), (''totalPages'', JInt 7)])]"

definition page_response :: SearchPageResponse where
  "page_response =
     \<lparr>links = \<lparr>link_self = JStr ''page7'', link_first = JStr [], link_next = JStr [],
                link_prev = JStr [], link_last = JStr []\<rparr>,
      data = JArr page_listings, current_page = JInt 7, total_pages = JInt 7\<rparr>"

definition page_requests :: "(string \<times> json) list" where
  "page_requests =
     [(''https://api.cars.co.za/fw/public/v2/specs/ABC/2020'', seed_abc),
      (''https://api.cars.co.za/fw/public/v2/specs/DEF/2021'', seed_def)]"

definition engine_spec :: json where
  "engine_spec = JArr [JObj [(''title'', JStr ''Engine''),
     (''attrs'', JArr [JObj [(''label'', JStr ''Power Max''), (''value'', JStr ''100kW'')]])]]"

text \<open>
  The network of the examples: the page link gives the page above, the detail link of
  ABC gives a body with two elements of data, that of DEF a body with no data, and
  everything else fails.
\<close>

definition example_fetch :: "json \<Rightarrow> exn + json" where
  "example_fetch link =
     (if link = JStr ''page7'' then Inr page_body
      else if link = JStr ''https://api.cars.co.za/fw/public/v2/specs/ABC/2020''
        then Inr (JObj [(''data'', JArr [engine_spec, JStr ''second''])])
      else if link = JStr ''https://api.cars.co.za/fw/public/v2/specs/DEF/2021''
        then Inr (JObj [(''data'', JArr [])])
      else Inl RequestException)"

definition pipeline0 :: pipeline where
  "pipeline0 = \<lparr>search_page_request_queue = \<lparr>qitems = [JStr ''page7''], unfinished_tasks = 1\<rparr>,
                 car_data_request_queue = empty_queue,
                 car_data_result_queue = empty_queue,
                 error_log = [],
                 store = store0,
                 batch = [],
                 last_save_time = 0\<rparr>"

text \<open>The state after the page was worked on, and after the request of ABC as well.\<close>

definition pipeline1 :: pipeline where
  "pipeline1 = pipeline0
     \<lparr>search_page_request_queue := \<lparr>qitems = [JStr []], unfinished_tasks = 1\<rparr>,
      car_data_request_queue := \<lparr>qitems = page_requests, unfinished_tasks = 2\<rparr>\<rparr>"

definition pipeline2 :: pipeline where
  "pipeline2 = pipeline1
     \<lparr>car_data_request_queue := \<lparr>qitems = tl page_requests, unfinished_tasks = 1\<rparr>,
      car_data_result_queue :=
        \<lparr>qitems = [JObj [(''car_attrs'', seed_abc), (''car_specs'', engine_spec)]],
         unfinished_tasks = 1\<rparr>\<rparr>"

text \<open>A persister one record short of the size threshold, with a record waiting.\<close>

definition pipeline_full :: pipeline where
  "pipeline_full = pipeline0
     \<lparr>car_data_result_queue := \<lparr>qitems = [JStr ''new''], unfinished_tasks = 1\<rparr>,
      batch := replicate 9999 (JStr ''kept'')\<rparr>"

text \<open>A persister with one record in the batch and nothing waiting.\<close>

definition pipeline_idle :: pipeline where
  "pipeline_idle = pipeline0\<lparr>batch := [JStr ''new'']\<rparr>"

text \<open>A stored record as the parser reads it.\<close>

definition record0 :: json where
  "record0 = JObj [
     (''car_attrs'', JObj [(''code'', JStr ''ABC''), (''year'', JInt 2020),
                           (''seller_types'', JArr [JStr ''Dealer'', JStr ''Private'']),
                           (''image'', JObj [(''url'', JStr ''u.jpg'')])]),
     (''car_specs'', engine_spec)]"

section \<open>Persistence: properties\<close>

lemmas fs_defs = fs_call_def fs_write_def fs_remove_def fs_rename_def

lemmas save_defs = save_batch_to_file_def load_existing_data_def fs_defs Let_def

text \<open>When a flush attempt returns True.\<close>

lemma save_ok_iff:
  "fst (save_batch_to_file f b flt fs) \<longleftrightarrow>
     loads_as_list fs f
     \<and> (flt = NoFault \<or> (fs_files fs f = None \<and> (flt = LoadFault \<or> flt = RemoveFault)))"
  by (auto simp add: save_defs loads_as_list_def
      split: option.splits content.splits json.splits fault.splits)

text \<open>The files after a flush attempt, step by step.\<close>

lemma save_files_ok:
  "fst (save_batch_to_file f b flt fs) \<Longrightarrow>
   fs_files (snd (save_batch_to_file f b flt fs)) =
     (fs_files fs)(f \<mapsto> Parsed (JArr (readable_contents fs f @ b)), ''_'' @ f := None)"
  by (auto simp add: save_defs readable_contents_def fun_eq_iff
      split: option.splits content.splits json.splits fault.splits if_splits)

lemma save_files_early:
  "\<not> loads_as_list fs f \<or> (flt = LoadFault \<and> fs_files fs f \<noteq> None) \<or> flt = WriteFault None \<Longrightarrow>
   fs_files (snd (save_batch_to_file f b flt fs)) = fs_files fs"
  by (auto simp add: save_defs loads_as_list_def
      split: option.splits content.splits json.splits fault.splits)

lemma save_files_write:
  "loads_as_list fs f \<Longrightarrow>
   fs_files (snd (save_batch_to_file f b (WriteFault (Some c)) fs)) = (fs_files fs)(''_'' @ f \<mapsto> c)"
  by (auto simp add: save_defs loads_as_list_def
      split: option.splits content.splits json.splits)

lemma save_files_remove:
  "loads_as_list fs f \<Longrightarrow> fs_files fs f \<noteq> None \<Longrightarrow>
   fs_files (snd (save_batch_to_file f b RemoveFault fs)) =
     (fs_files fs)(''_'' @ f \<mapsto> Parsed (JArr (readable_contents fs f @ b)))"
  by (auto simp add: save_defs loads_as_list_def readable_contents_def
      split: option.splits content.splits json.splits)

lemma save_files_rename:
  "loads_as_list fs f \<Longrightarrow>
   fs_files (snd (save_batch_to_file f b RenameFault fs)) =
     (fs_files fs)(''_'' @ f \<mapsto> Parsed (JArr (readable_contents fs f @ b)), f := None)"
  by (auto simp add: save_defs loads_as_list_def readable_contents_def fun_eq_iff
      split: option.splits content.splits json.splits)

lemma save_trace_prefix:
  "prefix (fs_trace fs @ [OpExists f]) (fs_trace (snd (save_batch_to_file f b flt fs)))"
  by (auto simp add: save_defs split: option.splits content.splits json.splits fault.splits)

lemma not_flush_attempted_same: "\<not> flush_attempted f fs fs"
  by (simp add: flush_attempted_def prefix_def)

lemma store0_loads_as_list: "loads_as_list store0 ''run1.json''"
  by (simp add: loads_as_list_def store0_def)

lemma store0_readable: "readable_contents store0 ''run1.json'' = [JStr ''old'']"
  by (simp add: readable_contents_def store0_def)

lemma save_store0_rename_fault:
  "save_batch_to_file ''run1.json'' [JStr ''new''] RenameFault store0 =
     (False,
      \<lparr>fs_files = (\<lambda>p. None)(''_run1.json'' \<mapsto> Parsed (JArr [JStr ''old'', JStr ''new''])),
       fs_trace = [OpExists ''run1.json'', OpRead ''run1.json'', OpWrite ''_run1.json'',
                   OpExists ''run1.json'', OpRemove ''run1.json'',
                   OpRename ''_run1.json'' ''run1.json'']\<rparr>)"
  by (simp add: save_defs store0_def fun_eq_iff)

text \<open>
  C1, as the claim states it, fails. The store holds one record; the temporary file is
  written, the old store file is removed, and then the rename fails: the flush reports
  failure and the final path has no file any more, where the claim wants the old store
  unchanged.
\<close>

theorem save_batch_to_file_rename_failure_counterexample:
  "\<not> fst (save_batch_to_file ''run1.json'' [JStr ''new''] RenameFault store0)
   \<and> fs_files store0 ''run1.json'' = Some (Parsed (JArr [JStr ''old'']))
   \<and> fs_files (snd (save_batch_to_file ''run1.json'' [JStr ''new''] RenameFault store0))
        ''run1.json'' = None"
  by (simp add: save_store0_rename_fault) (simp add: store0_def)

text \<open>
  C1, amended. The files after a flush attempt, for every store and every failure:
  \<^item> the flush succeeded: the final path holds the complete merged list, the temporary
    file is gone;
  \<^item> it failed at the rename, which comes after the removal of the old store file: the
    final path holds no file and the temporary file holds the complete merged list;
  \<^item> it failed at the removal of the old store file: the final path holds what it held
    and the temporary file holds the complete merged list;
  \<^item> it failed while the temporary file was being written: the final path holds what it
    held and the temporary file holds what the failed write left;
  \<^item> it failed before, at the load or at \<^verbatim>\<open>extend\<close> or at the opening of the temporary
    file: no file has changed.

  The flush succeeds when the store loads as a list and no call it makes fails.

  No other file changes. So the final path holds what it held, or no file, or the
  complete merged list, and never a partially written store.
\<close>

theorem save_batch_to_file_final_path:
  "(fst (save_batch_to_file F b flt fs) \<longleftrightarrow>
      loads_as_list fs F
      \<and> (flt = NoFault \<or> (fs_files fs F = None \<and> (flt = LoadFault \<or> flt = RemoveFault))))
   \<and> (fst (save_batch_to_file F b flt fs) \<longrightarrow>
      fs_files (snd (save_batch_to_file F b flt fs)) =
        (fs_files fs)(F \<mapsto> Parsed (JArr (readable_contents fs F @ b)), ''_'' @ F := None))
   \<and> (\<not> fst (save_batch_to_file F b flt fs) \<longrightarrow>
        fs_files (snd (save_batch_to_file F b flt fs)) =
          (if \<not> loads_as_list fs F then fs_files fs
           else case flt of
                  RenameFault \<Rightarrow>
                    (fs_files fs)(''_'' @ F \<mapsto> Parsed (JArr (readable_contents fs F @ b)),
                                  F := None)
                | RemoveFault \<Rightarrow>
                    (fs_files fs)(''_'' @ F \<mapsto> Parsed (JArr (readable_contents fs F @ b)))
                | WriteFault (Some c) \<Rightarrow> (fs_files fs)(''_'' @ F \<mapsto> c)
                | _ \<Rightarrow> fs_files fs))
   \<and> (fs_files (snd (save_batch_to_file F b flt fs)) F = fs_files fs F
        \<or> fs_files (snd (save_batch_to_file F b flt fs)) F = None
        \<or> fs_files (snd (save_batch_to_file F b flt fs)) F =
             Some (Parsed (JArr (readable_contents fs F @ b))))"
proof -
  have ok: "fs_files (snd (save_batch_to_file F b flt fs)) =
        (fs_files fs)(F \<mapsto> Parsed (JArr (readable_contents fs F @ b)), ''_'' @ F := None)"
    if "fst (save_batch_to_file F b flt fs)"
    using that by (rule save_files_ok)
  have failed: "fs_files (snd (save_batch_to_file F b flt fs)) =
          (if \<not> loads_as_list fs F then fs_files fs
           else case flt of
                  RenameFault \<Rightarrow>
                    (fs_files fs)(''_'' @ F \<mapsto> Parsed (JArr (readable_contents fs F @ b)),
                                  F := None)
                | RemoveFault \<Rightarrow>
                    (fs_files fs)(''_'' @ F \<mapsto> Parsed (JArr (readable_contents fs F @ b)))
                | WriteFault (Some c) \<Rightarrow> (fs_files fs)(''_'' @ F \<mapsto> c)
                | _ \<Rightarrow> fs_files fs)"
    if nok: "\<not> fst (save_batch_to_file F b flt fs)"
  proof (cases "loads_as_list fs F")
    case False
    then show ?thesis by (simp add: save_files_early)
  next
    case True
    note lists = this
    show ?thesis
    proof (cases flt)
      case NoFault
      with nok lists show ?thesis by (simp add: save_ok_iff)
    next
      case LoadFault
      with nok lists have "fs_files fs F \<noteq> None" by (auto simp add: save_ok_iff)
      with LoadFault lists show ?thesis by (simp add: save_files_early)
    next
      case (WriteFault w)
      with lists show ?thesis
        by (cases w) (simp_all add: save_files_early save_files_write)
    next
      case RemoveFault
      with nok lists have "fs_files fs F \<noteq> None" by (auto simp add: save_ok_iff)
      with RemoveFault lists show ?thesis by (simp add: save_files_remove)
    next
      case RenameFault
      with lists show ?thesis by (simp add: save_files_rename)
    qed
  qed
  have final: "fs_files (snd (save_batch_to_file F b flt fs)) F = fs_files fs F
        \<or> fs_files (snd (save_batch_to_file F b flt fs)) F = None
        \<or> fs_files (snd (save_batch_to_file F b flt fs)) F =
             Some (Parsed (JArr (readable_contents fs F @ b)))"
  proof (cases "fst (save_batch_to_file F b flt fs)")
    case True
    from ok[OF True] show ?thesis by simp
  next
    case False
    from failed[OF False] show ?thesis
      by (auto split: fault.splits option.splits if_splits)
  qed
  note when_ok = save_ok_iff[of F b flt fs]
  from when_ok ok failed final show ?thesis by blast
qed

theorem save_batch_to_file_final_path_witness:
  "\<not> fst (save_batch_to_file ''run1.json'' [JStr ''new''] RenameFault store0)
   \<and> loads_as_list store0 ''run1.json''
   \<and> fs_files (snd (save_batch_to_file ''run1.json'' [JStr ''new''] RenameFault store0))
        ''run1.json'' = None
   \<and> fs_files (snd (save_batch_to_file ''run1.json'' [JStr ''new''] RenameFault store0))
        ''_run1.json'' = Some (Parsed (JArr [JStr ''old'', JStr ''new'']))
   \<and> \<not> fst (save_batch_to_file ''run1.json'' [JStr ''new'']
               (WriteFault (Some (Malformed ''[''))) store0)
   \<and> fs_files (snd (save_batch_to_file ''run1.json'' [JStr ''new'']
                      (WriteFault (Some (Malformed ''[''))) store0)) ''run1.json''
       = Some (Parsed (JArr [JStr ''old'']))
   \<and> fs_files (snd (save_batch_to_file ''run1.json'' [JStr ''new'']
                      (WriteFault (Some (Malformed ''[''))) store0)) ''_run1.json''
       = Some (Malformed ''['')"
proof -
  have f1: "\<not> fst (save_batch_to_file ''run1.json'' [JStr ''new''] RenameFault store0)"
    by (simp add: save_store0_rename_fault)
  have f2: "\<not> fst (save_batch_to_file ''run1.json'' [JStr ''new'']
                     (WriteFault (Some (Malformed ''[''))) store0)"
    by (simp add: save_ok_iff)
  have old: "fs_files store0 ''run1.json'' = Some (Parsed (JArr [JStr ''old'']))"
    by (simp add: store0_def)
  from save_batch_to_file_final_path
         [of "''run1.json''" "[JStr ''new'']" RenameFault store0] f1
  have r: "fs_files (snd (save_batch_to_file ''run1.json'' [JStr ''new''] RenameFault store0)) =
        (fs_files store0)(''_run1.json'' \<mapsto> Parsed (JArr [JStr ''old'', JStr ''new'']),
                         ''run1.json'' := None)"
    by (simp add: store0_loads_as_list store0_readable)
  from save_batch_to_file_final_path
         [of "''run1.json''" "[JStr ''new'']" "WriteFault (Some (Malformed ''[''))" store0] f2
  have w: "fs_files (snd (save_batch_to_file ''run1.json'' [JStr ''new'']
                      (WriteFault (Some (Malformed ''[''))) store0)) =
        (fs_files store0)(''_run1.json'' \<mapsto> Malformed ''['')"
    by (simp add: store0_loads_as_list)
  show ?thesis
    using f1 f2 store0_loads_as_list old by (simp add: r w)
qed

lemma save_readable_ok:
  "fst (save_batch_to_file f b flt fs) \<Longrightarrow>
   readable_contents (snd (save_batch_to_file f b flt fs)) f = readable_contents fs f @ b"
  by (simp add: save_files_ok readable_contents_def)

lemma save_readable_failed:
  "\<not> fst (save_batch_to_file f b flt fs) \<Longrightarrow>
   readable_contents (snd (save_batch_to_file f b flt fs)) f =
     (if flt = RenameFault \<and> loads_as_list fs f then [] else readable_contents fs f)"
proof (cases "loads_as_list fs f")
  case False
  then show ?thesis by (simp add: save_files_early readable_contents_def)
next
  case True
  assume nok: "\<not> fst (save_batch_to_file f b flt fs)"
  show ?thesis
  proof (cases flt)
    case NoFault
    with nok True show ?thesis by (simp add: save_ok_iff)
  next
    case LoadFault
    with nok True have "fs_files fs f \<noteq> None" by (auto simp add: save_ok_iff)
    with LoadFault show ?thesis by (simp add: save_files_early readable_contents_def)
  next
    case (WriteFault w)
    with True show ?thesis
      by (cases w) (simp_all add: save_files_early save_files_write readable_contents_def)
  next
    case RemoveFault
    with nok True have "fs_files fs f \<noteq> None" by (auto simp add: save_ok_iff)
    with RemoveFault True show ?thesis by (simp add: save_files_remove readable_contents_def)
  next
    case RenameFault
    with True show ?thesis by (simp add: save_files_rename readable_contents_def)
  qed
qed

lemma process_batch_nonempty:
  "b \<noteq> [] \<Longrightarrow>
   process_batch b f flt fs =
     (if fst (save_batch_to_file f b flt fs) then [] else b, snd (save_batch_to_file f b flt fs))"
  by (cases "save_batch_to_file f b flt fs") (auto simp: process_batch_def)

text \<open>
  C3, as the claim states it, fails in its last part. The store holds the record
  \<open>old\<close> and the batch the record \<open>new\<close>; the flush fails at the rename. The batch
  is retained, but \<open>old\<close>, which an earlier flush had accepted and persisted, is now
  in neither the batch nor the store, and the next flush, which succeeds, leaves a
  store with \<open>new\<close> alone: the failed flush has lost a record.
\<close>

theorem process_batch_failed_flush_loses_store_counterexample:
  "\<not> fst (save_batch_to_file ''run1.json'' [JStr ''new''] RenameFault store0)
   \<and> readable_contents store0 ''run1.json'' = [JStr ''old'']
   \<and> fst (process_batch [JStr ''new''] ''run1.json'' RenameFault store0) = [JStr ''new'']
   \<and> readable_contents (snd (process_batch [JStr ''new''] ''run1.json'' RenameFault store0))
        ''run1.json'' = []
   \<and> process_batch [JStr ''new''] ''run1.json'' NoFault
        (snd (process_batch [JStr ''new''] ''run1.json'' RenameFault store0)) =
       ([],
        \<lparr>fs_files = (\<lambda>p. None)(''run1.json'' \<mapsto> Parsed (JArr [JStr ''new''])),
         fs_trace = [OpExists ''run1.json'', OpRead ''run1.json'', OpWrite ''_run1.json'',
                     OpExists ''run1.json'', OpRemove ''run1.json'',
                     OpRename ''_run1.json'' ''run1.json'',
                     OpExists ''run1.json'', OpWrite ''_run1.json'', OpExists ''run1.json'',
                     OpRename ''_run1.json'' ''run1.json'']\<rparr>)"
  by (simp add: process_batch_def save_store0_rename_fault store0_readable)
     (simp add: save_defs readable_contents_def fun_eq_iff)

text \<open>
  C3, amended. \<^verbatim>\<open>process_batch\<close> makes no flush attempt on an empty batch. On a
  batch that is not empty it makes one attempt, and clears the batch exactly when the
  attempt returned True; when the attempt failed the batch is what it was, so no record
  of the batch is lost. After a successful attempt the store holds what it held followed
  by the batch. After a failed attempt the store holds what it held, unless the failure
  was at the rename, after the old store file was removed: then the store holds nothing
  and what it held is, with the batch, in the temporary file only.
\<close>

theorem process_batch_keeps_batch_on_failure:
  "(b = [] \<longrightarrow> process_batch b F flt fs = ([], fs))
   \<and> (b \<noteq> [] \<longrightarrow>
        snd (process_batch b F flt fs) = snd (save_batch_to_file F b flt fs)
        \<and> (fst (process_batch b F flt fs) = [] \<longleftrightarrow> fst (save_batch_to_file F b flt fs)))
   \<and> (\<not> fst (save_batch_to_file F b flt fs) \<longrightarrow> fst (process_batch b F flt fs) = b)
   \<and> (b \<noteq> [] \<longrightarrow> fst (save_batch_to_file F b flt fs) \<longrightarrow>
        readable_contents (snd (process_batch b F flt fs)) F = readable_contents fs F @ b)
   \<and> (b \<noteq> [] \<longrightarrow> \<not> fst (save_batch_to_file F b flt fs) \<longrightarrow>
        readable_contents (snd (process_batch b F flt fs)) F =
          (if flt = RenameFault \<and> loads_as_list fs F then [] else readable_contents fs F))
   \<and> (b \<noteq> [] \<longrightarrow> flt = RenameFault \<longrightarrow> loads_as_list fs F \<longrightarrow>
        \<not> fst (save_batch_to_file F b flt fs)
        \<and> fs_files (snd (process_batch b F flt fs)) (''_'' @ F) =
            Some (Parsed (JArr (readable_contents fs F @ b))))"
proof (cases "b = []")
  case True
  then show ?thesis by (simp add: process_batch_def)
next
  case False
  note pb = process_batch_nonempty[OF False, of F flt fs]
  from pb have files: "snd (process_batch b F flt fs) = snd (save_batch_to_file F b flt fs)"
    by simp
  from pb have cleared:
    "fst (process_batch b F flt fs) = [] \<longleftrightarrow> fst (save_batch_to_file F b flt fs)"
    using False by simp
  from pb have kept:
    "\<not> fst (save_batch_to_file F b flt fs) \<Longrightarrow> fst (process_batch b F flt fs) = b"
    by simp
  have grown: "readable_contents (snd (process_batch b F flt fs)) F = readable_contents fs F @ b"
    if "fst (save_batch_to_file F b flt fs)"
    using that by (simp add: files save_readable_ok)
  have same: "readable_contents (snd (process_batch b F flt fs)) F =
          (if flt = RenameFault \<and> loads_as_list fs F then [] else readable_contents fs F)"
    if "\<not> fst (save_batch_to_file F b flt fs)"
    using that by (simp add: files save_readable_failed)
  have rename: "\<not> fst (save_batch_to_file F b flt fs)
        \<and> fs_files (snd (process_batch b F flt fs)) (''_'' @ F) =
            Some (Parsed (JArr (readable_contents fs F @ b)))"
    if "flt = RenameFault" "loads_as_list fs F"
    using that files by (simp add: save_files_rename save_ok_iff)
  from False files cleared kept grown same rename show ?thesis by blast
qed

theorem process_batch_keeps_batch_on_failure_witness:
  "[JStr ''new''] \<noteq> []
   \<and> \<not> fst (save_batch_to_file ''run1.json'' [JStr ''new''] (WriteFault None) store0)
   \<and> fst (process_batch [JStr ''new''] ''run1.json'' (WriteFault None) store0) = [JStr ''new'']
   \<and> readable_contents (snd (process_batch [JStr ''new''] ''run1.json'' (WriteFault None) store0))
        ''run1.json'' = [JStr ''old'']
   \<and> fst (save_batch_to_file ''run1.json'' [JStr ''new''] NoFault store0)
   \<and> fst (process_batch [JStr ''new''] ''run1.json'' NoFault store0) = []
   \<and> readable_contents (snd (process_batch [JStr ''new''] ''run1.json'' NoFault store0))
        ''run1.json'' = [JStr ''old'', JStr ''new'']
   \<and> loads_as_list store0 ''run1.json''
   \<and> fs_files (snd (process_batch [JStr ''new''] ''run1.json'' RenameFault store0))
        ''_run1.json'' = Some (Parsed (JArr [JStr ''old'', JStr ''new'']))"
proof -
  have ne: "[JStr ''new''] \<noteq> []" by simp
  have failed: "\<not> fst (save_batch_to_file ''run1.json'' [JStr ''new''] (WriteFault None) store0)"
    by (simp add: save_ok_iff)
  have ok: "fst (save_batch_to_file ''run1.json'' [JStr ''new''] NoFault store0)"
    by (simp add: save_ok_iff store0_loads_as_list)
  note w = process_batch_keeps_batch_on_failure
             [of "[JStr ''new'']" "''run1.json''" "WriteFault None" store0]
  note n = process_batch_keeps_batch_on_failure
             [of "[JStr ''new'']" "''run1.json''" NoFault store0]
  note r = process_batch_keeps_batch_on_failure
             [of "[JStr ''new'']" "''run1.json''" RenameFault store0]
  from w failed ne have w1:
    "fst (process_batch [JStr ''new''] ''run1.json'' (WriteFault None) store0) = [JStr ''new'']"
    by blast
  from w failed ne have
    "readable_contents (snd (process_batch [JStr ''new''] ''run1.json'' (WriteFault None) store0))
        ''run1.json'' =
       (if WriteFault None = RenameFault \<and> loads_as_list store0 ''run1.json'' then []
        else readable_contents store0 ''run1.json'')"
    by blast
  then have w2:
    "readable_contents (snd (process_batch [JStr ''new''] ''run1.json'' (WriteFault None) store0))
        ''run1.json'' = [JStr ''old'']"
    by (simp add: store0_readable)
  from n ok ne have n1:
    "fst (process_batch [JStr ''new''] ''run1.json'' NoFault store0) = []"
    by blast
  from n ok ne have
    "readable_contents (snd (process_batch [JStr ''new''] ''run1.json'' NoFault store0))
        ''run1.json'' = readable_contents store0 ''run1.json'' @ [JStr ''new'']"
    by blast
  then have n2:
    "readable_contents (snd (process_batch [JStr ''new''] ''run1.json'' NoFault store0))
        ''run1.json'' = [JStr ''old'', JStr ''new'']"
    by (simp add: store0_readable)
  from r store0_loads_as_list ne have
    "fs_files (snd (process_batch [JStr ''new''] ''run1.json'' RenameFault store0))
        (''_'' @ ''run1.json'') =
       Some (Parsed (JArr (readable_contents store0 ''run1.json'' @ [JStr ''new''])))"
    by blast
  then have r1:
    "fs_files (snd (process_batch [JStr ''new''] ''run1.json'' RenameFault store0))
        ''_run1.json'' = Some (Parsed (JArr [JStr ''old'', JStr ''new'']))"
    by (simp add: store0_readable)
  from ne failed ok w1 w2 n1 n2 r1 store0_loads_as_list show ?thesis by blast
qed

text \<open>
  C4, as the claim states it, fails. The store file holds an integer of too many digits:
  it fails to parse, with a ValueError that is not a JSONDecodeError, so
  \<^verbatim>\<open>load_existing_data\<close> does not catch it. The store is not treated as empty: the
  flush fails and the store file is what it was, where the claim wants a store that
  holds the batch.
\<close>

theorem save_batch_to_file_unloadable_store_counterexample:
  "fst (load_existing_data ''run1.json'' NoFault store_overlong) = Inl ValueError
   \<and> \<not> fst (save_batch_to_file ''run1.json'' [JStr ''new''] NoFault store_overlong)
   \<and> fs_files (snd (save_batch_to_file ''run1.json'' [JStr ''new''] NoFault store_overlong))
        ''run1.json'' = fs_files store_overlong ''run1.json''
   \<and> fs_files (snd (save_batch_to_file ''run1.json'' [JStr ''new''] NoFault store_overlong))
        ''run1.json'' \<noteq> Some (Parsed (JArr [JStr ''new'']))"
  by (simp add: save_defs store_overlong_def)

text \<open>
  C4, amended. A flush that succeeds has read the current store, appended the batch and
  rewritten the whole store through the temporary file: the final path holds the
  readable contents followed by the batch. A missing store file is treated as an empty
  store, and so is a store file on which \<^verbatim>\<open>json.load\<close> raises JSONDecodeError; with
  such a store, or one that holds a list, a flush that meets no failure succeeds. A store
  file on which \<^verbatim>\<open>json.load\<close> raises another exception, or which holds a value that is
  not a list, is not treated as empty: every flush fails and changes no file.
\<close>

theorem save_batch_to_file_appends_batch:
  "(loads_as_list fs F \<longrightarrow>
      fst (load_existing_data F NoFault fs) = Inr (JArr (readable_contents fs F))
      \<and> (fs_files fs F = None \<longrightarrow> fst (load_existing_data F NoFault fs) = Inr (JArr []))
      \<and> (\<forall>bytes. fs_files fs F = Some (Malformed bytes) \<longrightarrow>
            fst (load_existing_data F NoFault fs) = Inr (JArr []))
      \<and> save_batch_to_file F b NoFault fs =
          (True,
           \<lparr>fs_files = (fs_files fs)(F \<mapsto> Parsed (JArr (readable_contents fs F @ b)),
                                      ''_'' @ F := None),
            fs_trace = fs_trace fs @ [OpExists F]
               @ (if fs_files fs F = None then [] else [OpRead F])
               @ [OpWrite (''_'' @ F), OpExists F]
               @ (if fs_files fs F = None then [] else [OpRemove F])
               @ [OpRename (''_'' @ F) F]\<rparr>))
   \<and> (\<forall>e bytes. fs_files fs F = Some (Unloadable e bytes) \<longrightarrow>
         fst (load_existing_data F NoFault fs) = Inl e)
   \<and> (\<not> loads_as_list fs F \<longrightarrow>
         \<not> fst (save_batch_to_file F b flt fs)
         \<and> fs_files (snd (save_batch_to_file F b flt fs)) = fs_files fs)
   \<and> (fst (save_batch_to_file F b flt fs) \<longrightarrow>
         loads_as_list fs F
         \<and> fs_files (snd (save_batch_to_file F b flt fs)) =
             (fs_files fs)(F \<mapsto> Parsed (JArr (readable_contents fs F @ b)),
                           ''_'' @ F := None))"
proof -
  have lists: "fst (load_existing_data F NoFault fs) = Inr (JArr (readable_contents fs F))
      \<and> (fs_files fs F = None \<longrightarrow> fst (load_existing_data F NoFault fs) = Inr (JArr []))
      \<and> (\<forall>bytes. fs_files fs F = Some (Malformed bytes) \<longrightarrow>
            fst (load_existing_data F NoFault fs) = Inr (JArr []))
      \<and> save_batch_to_file F b NoFault fs =
          (True,
           \<lparr>fs_files = (fs_files fs)(F \<mapsto> Parsed (JArr (readable_contents fs F @ b)),
                                      ''_'' @ F := None),
            fs_trace = fs_trace fs @ [OpExists F]
               @ (if fs_files fs F = None then [] else [OpRead F])
               @ [OpWrite (''_'' @ F), OpExists F]
               @ (if fs_files fs F = None then [] else [OpRemove F])
               @ [OpRename (''_'' @ F) F]\<rparr>)"
    if "loads_as_list fs F"
    using that
    by (auto simp add: save_defs readable_contents_def loads_as_list_def fun_eq_iff
        split: option.splits content.splits json.splits)
  have raises: "\<forall>e bytes. fs_files fs F = Some (Unloadable e bytes) \<longrightarrow>
         fst (load_existing_data F NoFault fs) = Inl e"
    by (simp add: load_existing_data_def fs_defs Let_def)
  have fails: "\<not> fst (save_batch_to_file F b flt fs)
         \<and> fs_files (snd (save_batch_to_file F b flt fs)) = fs_files fs"
    if "\<not> loads_as_list fs F"
    using that by (simp add: save_ok_iff save_files_early)
  have ok: "loads_as_list fs F
         \<and> fs_files (snd (save_batch_to_file F b flt fs)) =
             (fs_files fs)(F \<mapsto> Parsed (JArr (readable_contents fs F @ b)),
                           ''_'' @ F := None)"
    if "fst (save_batch_to_file F b flt fs)"
    using that save_files_ok[OF that] by (simp add: save_ok_iff)
  from lists raises fails ok show ?thesis by blast
qed

theorem save_batch_to_file_appends_batch_witness:
  "loads_as_list store0 ''run1.json''
   \<and> fst (save_batch_to_file ''run1.json'' [JStr ''new''] NoFault store0)
   \<and> fs_files (snd (save_batch_to_file ''run1.json'' [JStr ''new''] NoFault store0)) ''run1.json''
       = Some (Parsed (JArr [JStr ''old'', JStr ''new'']))
   \<and> \<not> loads_as_list store_overlong ''run1.json''
   \<and> \<not> fst (save_batch_to_file ''run1.json'' [JStr ''new''] NoFault store_overlong)
   \<and> fs_files (snd (save_batch_to_file ''run1.json'' [JStr ''new''] NoFault store_overlong))
       = fs_files store_overlong"
proof -
  have bad: "\<not> loads_as_list store_overlong ''run1.json''"
    by (simp add: loads_as_list_def store_overlong_def)
  note good = save_batch_to_file_appends_batch
                [of store0 "''run1.json''" "[JStr ''new'']" NoFault]
  note over = save_batch_to_file_appends_batch
                [of store_overlong "''run1.json''" "[JStr ''new'']" NoFault]
  from good store0_loads_as_list
  have "save_batch_to_file ''run1.json'' [JStr ''new''] NoFault store0 =
          (True,
           \<lparr>fs_files = (fs_files store0)(''run1.json'' \<mapsto>
                          Parsed (JArr (readable_contents store0 ''run1.json'' @ [JStr ''new''])),
                                      ''_'' @ ''run1.json'' := None),
            fs_trace = fs_trace store0 @ [OpExists ''run1.json'']
               @ (if fs_files store0 ''run1.json'' = None then [] else [OpRead ''run1.json''])
               @ [OpWrite (''_'' @ ''run1.json''), OpExists ''run1.json'']
               @ (if fs_files store0 ''run1.json'' = None then [] else [OpRemove ''run1.json''])
               @ [OpRename (''_'' @ ''run1.json'') ''run1.json'']\<rparr>)"
    by blast
  then have g: "fst (save_batch_to_file ''run1.json'' [JStr ''new''] NoFault store0)
     \<and> fs_files (snd (save_batch_to_file ''run1.json'' [JStr ''new''] NoFault store0))
          ''run1.json'' = Some (Parsed (JArr [JStr ''old'', JStr ''new'']))"
    by (simp add: store0_readable)
  from over bad
  have o: "\<not> fst (save_batch_to_file ''run1.json'' [JStr ''new''] NoFault store_overlong)
     \<and> fs_files (snd (save_batch_to_file ''run1.json'' [JStr ''new''] NoFault store_overlong))
         = fs_files store_overlong"
    by blast
  from store0_loads_as_list g bad o show ?thesis by blast
qed

text \<open>
  C5. When the record that arrives brings the batch to the threshold, the same turn of
  the loop attempts a flush of the batch with that record in it, whatever the two
  readings of the clock are and whatever the flush meets, and the turn has taken no
  other record from the result queue.
\<close>

theorem size_threshold_flushes_first:
  assumes "qitems (car_data_result_queue st) = d # rest"
      and "0 < unfinished_tasks (car_data_result_queue st)"
      and "BATCH_SIZE \<le> length (batch st @ [d])"
  shows "\<exists>st'. save_car_data_worker_iter F flt t1 t2 st = Inr st'
     \<and> store st' = snd (save_batch_to_file F (batch st @ [d]) flt (store st))
     \<and> flush_attempted F (store st) (store st')
     \<and> batch st' = (if fst (save_batch_to_file F (batch st @ [d]) flt (store st)) then []
                    else batch st @ [d])
     \<and> qitems (car_data_result_queue st') = rest"
  using assms save_trace_prefix[of "store st" F "batch st @ [d]" flt]
  by (cases "save_batch_to_file F (batch st @ [d]) flt (store st)")
     (auto simp add: save_car_data_worker_iter_def process_batch_def task_done_def Let_def
        flush_attempted_def split: bool.splits)

theorem size_threshold_flushes_first_witness:
  "qitems (car_data_result_queue pipeline_full) = JStr ''new'' # []
   \<and> 0 < unfinished_tasks (car_data_result_queue pipeline_full)
   \<and> BATCH_SIZE \<le> length (batch pipeline_full @ [JStr ''new''])
   \<and> (\<exists>st'. save_car_data_worker_iter ''run1.json'' NoFault 1 2 pipeline_full = Inr st'
        \<and> store st' = snd (save_batch_to_file ''run1.json'' (batch pipeline_full @ [JStr ''new''])
                             NoFault (store pipeline_full))
        \<and> flush_attempted ''run1.json'' (store pipeline_full) (store st')
        \<and> batch st' = (if fst (save_batch_to_file ''run1.json''
                                  (batch pipeline_full @ [JStr ''new'']) NoFault
                                  (store pipeline_full))
                        then [] else batch pipeline_full @ [JStr ''new''])
        \<and> qitems (car_data_result_queue st') = [])"
proof -
  have h1: "qitems (car_data_result_queue pipeline_full) = JStr ''new'' # []"
    by (simp add: pipeline_full_def)
  have h2: "0 < unfinished_tasks (car_data_result_queue pipeline_full)"
    by (simp add: pipeline_full_def)
  have h3: "BATCH_SIZE \<le> length (batch pipeline_full @ [JStr ''new''])"
    by (simp add: pipeline_full_def BATCH_SIZE_def)
  show ?thesis
    by (intro conjI h1 h2 h3 size_threshold_flushes_first[OF h1 h2 h3])
qed

text \<open>
  C6. When the wait on the result queue times out, the turn attempts a flush exactly
  when the batch is not empty; with an empty batch the file system, trace included, is
  what it was.
\<close>

theorem timeout_flushes_iff_batch_nonempty:
  assumes "qitems (car_data_result_queue st) = []"
  shows "\<exists>st'. save_car_data_worker_iter F flt t1 t2 st = Inr st'
     \<and> (flush_attempted F (store st) (store st') \<longleftrightarrow> batch st \<noteq> [])
     \<and> (batch st = [] \<longrightarrow> store st' = store st \<and> batch st' = [])
     \<and> (batch st \<noteq> [] \<longrightarrow>
          store st' = snd (save_batch_to_file F (batch st) flt (store st)))"
  using assms save_trace_prefix[of "store st" F "batch st" flt]
    not_flush_attempted_same[of F "store st"]
  by (cases "save_batch_to_file F (batch st) flt (store st)")
     (auto simp add: save_car_data_worker_iter_def process_batch_def Let_def flush_attempted_def
        split: bool.splits)

theorem timeout_flushes_iff_batch_nonempty_witness:
  "qitems (car_data_result_queue pipeline_idle) = []
   \<and> batch pipeline_idle \<noteq> []
   \<and> qitems (car_data_result_queue pipeline0) = []
   \<and> batch pipeline0 = []
   \<and> (\<exists>st'. save_car_data_worker_iter ''run1.json'' NoFault 1 2 pipeline_idle = Inr st'
         \<and> flush_attempted ''run1.json'' (store pipeline_idle) (store st'))
   \<and> (\<exists>st'. save_car_data_worker_iter ''run1.json'' NoFault 1 2 pipeline0 = Inr st'
         \<and> store st' = store pipeline0)"
proof -
  have h1: "qitems (car_data_result_queue pipeline_idle) = []"
    by (simp add: pipeline_idle_def pipeline0_def empty_queue_def)
  have b1: "batch pipeline_idle \<noteq> []"
    by (simp add: pipeline_idle_def)
  have h2: "qitems (car_data_result_queue pipeline0) = []"
    by (simp add: pipeline0_def empty_queue_def)
  have b2: "batch pipeline0 = []"
    by (simp add: pipeline0_def)
  from timeout_flushes_iff_batch_nonempty[OF h1, of "''run1.json''" NoFault 1 2] b1
  have idle: "\<exists>st'. save_car_data_worker_iter ''run1.json'' NoFault 1 2 pipeline_idle = Inr st'
         \<and> flush_attempted ''run1.json'' (store pipeline_idle) (store st')"
    by blast
  from timeout_flushes_iff_batch_nonempty[OF h2, of "''run1.json''" NoFault 1 2] b2
  have empty: "\<exists>st'. save_car_data_worker_iter ''run1.json'' NoFault 1 2 pipeline0 = Inr st'
         \<and> store st' = store pipeline0"
    by blast
  from h1 b1 h2 b2 idle empty show ?thesis by blast
qed

section \<open>Fetch workers: properties\<close>

lemma put_car_data_all:
  "map (car_data_of fmt) listings = map Inr reqs \<Longrightarrow>
   put_car_data fmt listings q =
     (None, q\<lparr>qitems := qitems q @ reqs,
               unfinished_tasks := unfinished_tasks q + length reqs\<rparr>)"
proof (induction listings arbitrary: q reqs)
  case Nil
  then show ?case by simp
next
  case (Cons l ls)
  then obtain r rs where reqs: "reqs = r # rs" by (cases reqs) auto
  with Cons.prems have "car_data_of fmt l = Inr r" "map (car_data_of fmt) ls = map Inr rs"
    by auto
  with Cons.IH[of rs "put r q"] reqs show ?case by (simp add: put_def)
qed

lemma search_page_work_own_queue:
  "\<exists>extra. search_page_request_queue (snd (search_page_work fetch fmt link st)) =
     (search_page_request_queue st)
       \<lparr>qitems := qitems (search_page_request_queue st) @ extra,
        unfinished_tasks := unfinished_tasks (search_page_request_queue st) + length extra\<rparr>"
proof -
  have none: "\<exists>extra. search_page_request_queue st =
     (search_page_request_queue st)
       \<lparr>qitems := qitems (search_page_request_queue st) @ extra,
        unfinished_tasks := unfinished_tasks (search_page_request_queue st) + length extra\<rparr>"
    by (rule exI[of _ "[]"]) simp
  have one: "\<exists>extra. put x (search_page_request_queue st) =
     (search_page_request_queue st)
       \<lparr>qitems := qitems (search_page_request_queue st) @ extra,
        unfinished_tasks := unfinished_tasks (search_page_request_queue st) + length extra\<rparr>"
    for x
    by (rule exI[of _ "[x]"]) (simp add: put_def)
  show ?thesis
    using none one
    by (simp add: search_page_work_def Let_def split: sum.splits prod.splits option.splits)
qed

lemmas page_defs = search_page_worker_iter_def search_page_work_def
  new_search_page_response_def car_data_of_def put_def task_done_def field_or_default_def
  link_fields_def CAR_DATA_LINK_def Let_def

lemmas example_defs = pipeline0_def pipeline1_def pipeline2_def empty_queue_def page_body_def
  page_listings_def page_requests_def page_response_def seed_abc_def seed_def_def
  example_fetch_def store0_def engine_spec_def

lemma dec_nat_years: "dec_nat 2020 = ''2020''" "dec_nat 2021 = ''2021''"
  by code_simp+

text \<open>
  C2, as the claim states it, fails. The page has the empty string as next link; the
  turn of the page worker that fetches and parses it puts the two detail requests and
  then puts the empty string on the page queue, where the claim wants nothing put.
\<close>

theorem search_page_worker_empty_next_counterexample:
  "search_page_worker_iter example_fetch fmt_scalar pipeline0 = Some (Inr pipeline1)
   \<and> link_next (links page_response) = JStr []
   \<and> qitems (search_page_request_queue pipeline1) = [JStr []]"
  by (simp add: page_defs example_defs dec_nat_years)

text \<open>
  C2, amended. When the page is fetched and parsed and every listing has its attributes
  with a code and a year, the turn puts one detail request per listing, in order, and
  then puts the next link on the page queue whatever it is, the empty string included.
\<close>

theorem search_page_worker_resubmits_next:
  assumes "qitems (search_page_request_queue st) = link # rest"
      and "0 < unfinished_tasks (search_page_request_queue st)"
      and "fetch link = Inr body"
      and "new_search_page_response body = Inr response"
      and "py_iter (data response) = Inr listings"
      and "map (car_data_of fmt) listings = map Inr reqs"
  shows "\<exists>st'. search_page_worker_iter fetch fmt st = Some (Inr st')
      \<and> qitems (car_data_request_queue st') = qitems (car_data_request_queue st) @ reqs
      \<and> unfinished_tasks (car_data_request_queue st') =
          unfinished_tasks (car_data_request_queue st) + length reqs
      \<and> length reqs = length listings
      \<and> qitems (search_page_request_queue st') = rest @ [link_next (links response)]
      \<and> unfinished_tasks (search_page_request_queue st') =
          unfinished_tasks (search_page_request_queue st)"
proof -
  have len: "length reqs = length listings"
    using assms(6) by (metis length_map)
  show ?thesis
    using assms(1-5) len
    by (simp add: search_page_worker_iter_def search_page_work_def
        put_car_data_all[OF assms(6)] put_def task_done_def Let_def)
qed

theorem search_page_worker_resubmits_next_witness:
  "qitems (search_page_request_queue pipeline0) = JStr ''page7'' # []
   \<and> 0 < unfinished_tasks (search_page_request_queue pipeline0)
   \<and> example_fetch (JStr ''page7'') = Inr page_body
   \<and> new_search_page_response page_body = Inr page_response
   \<and> py_iter (data page_response) = Inr page_listings
   \<and> map (car_data_of fmt_scalar) page_listings = map Inr page_requests
   \<and> (\<exists>st'. search_page_worker_iter example_fetch fmt_scalar pipeline0 = Some (Inr st')
      \<and> qitems (car_data_request_queue st') =
          qitems (car_data_request_queue pipeline0) @ page_requests
      \<and> unfinished_tasks (car_data_request_queue st') =
          unfinished_tasks (car_data_request_queue pipeline0) + length page_requests
      \<and> length page_requests = length page_listings
      \<and> qitems (search_page_request_queue st') = [] @ [link_next (links page_response)]
      \<and> unfinished_tasks (search_page_request_queue st') =
          unfinished_tasks (search_page_request_queue pipeline0))"
proof -
  have h1: "qitems (search_page_request_queue pipeline0) = JStr ''page7'' # []"
    by (simp add: pipeline0_def)
  have h2: "0 < unfinished_tasks (search_page_request_queue pipeline0)"
    by (simp add: pipeline0_def)
  have h3: "example_fetch (JStr ''page7'') = Inr page_body"
    by (simp add: example_fetch_def)
  have h4: "new_search_page_response page_body = Inr page_response"
    by (simp add: page_defs page_body_def page_response_def)
  have h5: "py_iter (data page_response) = Inr page_listings"
    by (simp add: page_response_def)
  have h6: "map (car_data_of fmt_scalar) page_listings = map Inr page_requests"
    by (simp add: page_defs page_listings_def page_requests_def seed_abc_def seed_def_def
        dec_nat_years)
  show ?thesis
    by (intro conjI h1 h2 h3 h4 h5 h6
        search_page_worker_resubmits_next
          [where fetch = example_fetch and fmt = fmt_scalar, OF h1 h2 h3 h4 h5 h6])
qed

text \<open>
  C7. A turn of the page worker, and a turn of the detail worker, that takes an item
  ends with one \<^verbatim>\<open>task_done\<close> on its own queue, whatever the fetch gives or raises:
  after the turn the item is gone from the queue, and the counter of unfinished tasks
  has gone up by the puts of the turn on that queue and down by one.
\<close>

theorem workers_mark_done_once:
  "(qitems (search_page_request_queue st) = link # rest \<longrightarrow>
    0 < unfinished_tasks (search_page_request_queue st) \<longrightarrow>
      (\<exists>st' extra. search_page_worker_iter fetch fmt st = Some (Inr st')
         \<and> qitems (search_page_request_queue st') = rest @ extra
         \<and> unfinished_tasks (search_page_request_queue st') + 1 =
             unfinished_tasks (search_page_request_queue st) + length extra))
   \<and> (qitems (car_data_request_queue st) = req # rest2 \<longrightarrow>
      0 < unfinished_tasks (car_data_request_queue st) \<longrightarrow>
      (\<exists>st'. car_data_worker_iter fetch st = Some (Inr st')
         \<and> qitems (car_data_request_queue st') = rest2
         \<and> unfinished_tasks (car_data_request_queue st') + 1 =
             unfinished_tasks (car_data_request_queue st)))"
proof (intro conjI impI)
  assume h: "qitems (search_page_request_queue st) = link # rest"
     and u: "0 < unfinished_tasks (search_page_request_queue st)"
  define st0 where
    "st0 = st\<lparr>search_page_request_queue := (search_page_request_queue st)\<lparr>qitems := rest\<rparr>\<rparr>"
  obtain extra where e:
    "search_page_request_queue (snd (search_page_work fetch fmt link st0)) =
       (search_page_request_queue st0)
         \<lparr>qitems := qitems (search_page_request_queue st0) @ extra,
          unfinished_tasks := unfinished_tasks (search_page_request_queue st0) + length extra\<rparr>"
    using search_page_work_own_queue by blast
  obtain err st1 where w: "search_page_work fetch fmt link st0 = (err, st1)"
    by (cases "search_page_work fetch fmt link st0")
  from e w have q1: "search_page_request_queue st1 =
     (search_page_request_queue st)
       \<lparr>qitems := rest @ extra,
        unfinished_tasks := unfinished_tasks (search_page_request_queue st) + length extra\<rparr>"
    by (simp add: st0_def)
  show "\<exists>st' extra. search_page_worker_iter fetch fmt st = Some (Inr st')
         \<and> qitems (search_page_request_queue st') = rest @ extra
         \<and> unfinished_tasks (search_page_request_queue st') + 1 =
             unfinished_tasks (search_page_request_queue st) + length extra"
    using h u w q1
    by (cases err)
       (simp_all add: search_page_worker_iter_def st0_def[symmetric] task_done_def Let_def)
next
  assume h: "qitems (car_data_request_queue st) = req # rest2"
     and u: "0 < unfinished_tasks (car_data_request_queue st)"
  obtain l a where req: "req = (l, a)" by (cases req)
  show "\<exists>st'. car_data_worker_iter fetch st = Some (Inr st')
         \<and> qitems (car_data_request_queue st') = rest2
         \<and> unfinished_tasks (car_data_request_queue st') + 1 =
             unfinished_tasks (car_data_request_queue st)"
    using h u req
    by (simp add: car_data_worker_iter_def car_data_work_def task_done_def Let_def
        split: sum.splits)
qed

theorem workers_mark_done_once_witness:
  "qitems (search_page_request_queue pipeline1) = JStr [] # []
   \<and> 0 < unfinished_tasks (search_page_request_queue pipeline1)
   \<and> example_fetch (JStr []) = Inl RequestException
   \<and> (\<exists>st' extra. search_page_worker_iter example_fetch fmt_scalar pipeline1 = Some (Inr st')
         \<and> qitems (search_page_request_queue st') = [] @ extra
         \<and> unfinished_tasks (search_page_request_queue st') + 1 =
             unfinished_tasks (search_page_request_queue pipeline1) + length extra)
   \<and> qitems (car_data_request_queue pipeline1) = hd page_requests # tl page_requests
   \<and> 0 < unfinished_tasks (car_data_request_queue pipeline1)
   \<and> (\<exists>st'. car_data_worker_iter example_fetch pipeline1 = Some (Inr st')
         \<and> qitems (car_data_request_queue st') = tl page_requests
         \<and> unfinished_tasks (car_data_request_queue st') + 1 =
             unfinished_tasks (car_data_request_queue pipeline1))"
proof -
  have h1: "qitems (search_page_request_queue pipeline1) = JStr [] # []"
    by (simp add: pipeline1_def)
  have h2: "0 < unfinished_tasks (search_page_request_queue pipeline1)"
    by (simp add: pipeline1_def)
  have h3: "example_fetch (JStr []) = Inl RequestException"
    by (simp add: example_fetch_def)
  have h4: "qitems (car_data_request_queue pipeline1) = hd page_requests # tl page_requests"
    by (simp add: pipeline1_def page_requests_def)
  have h5: "0 < unfinished_tasks (car_data_request_queue pipeline1)"
    by (simp add: pipeline1_def)
  note w = workers_mark_done_once
             [where st = pipeline1 and link = "JStr []" and rest = "[]"
                and fetch = example_fetch and fmt = fmt_scalar
                and req = "hd page_requests" and ?rest2.0 = "tl page_requests"]
  from w h1 h2 have page:
    "\<exists>st' extra. search_page_worker_iter example_fetch fmt_scalar pipeline1 = Some (Inr st')
         \<and> qitems (search_page_request_queue st') = [] @ extra
         \<and> unfinished_tasks (search_page_request_queue st') + 1 =
             unfinished_tasks (search_page_request_queue pipeline1) + length extra"
    by blast
  from w h4 h5 have detail:
    "\<exists>st'. car_data_worker_iter example_fetch pipeline1 = Some (Inr st')
         \<and> qitems (car_data_request_queue st') = tl page_requests
         \<and> unfinished_tasks (car_data_request_queue st') + 1 =
             unfinished_tasks (car_data_request_queue pipeline1)"
    by blast
  from h1 h2 h3 page h4 h5 detail show ?thesis by blast
qed



text \<open>
  C10. When the detail fetch succeeds and the data of the body is a list, the record
  that the turn puts on the result queue holds the first element of the list and no
  other; when the list is empty the lookup raises IndexError, which is logged, no record
  is put, and the turn still ends with \<^verbatim>\<open>task_done\<close> on the detail queue.
\<close>

theorem car_data_worker_first_of_data:
  assumes "qitems (car_data_request_queue st) = (link, car_attrs) # rest"
      and "0 < unfinished_tasks (car_data_request_queue st)"
      and "fetch (JStr link) = Inr body"
      and "getitem body ''data'' = Inr (JArr xs)"
  shows "\<exists>st'. car_data_worker_iter fetch st = Some (Inr st')
      \<and> qitems (car_data_request_queue st') = rest
      \<and> unfinished_tasks (car_data_request_queue st') + 1 =
          unfinished_tasks (car_data_request_queue st)
      \<and> (case xs of
            [] \<Rightarrow> car_data_result_queue st' = car_data_result_queue st
                  \<and> error_log st' = error_log st @ [IndexError]
          | x # others \<Rightarrow>
              qitems (car_data_result_queue st') =
                qitems (car_data_result_queue st)
                  @ [JObj [(''car_attrs'', car_attrs), (''car_specs'', x)]]
              \<and> error_log st' = error_log st)"
  using assms
  by (cases xs)
     (simp_all add: car_data_worker_iter_def car_data_work_def task_done_def put_def Let_def)

theorem car_data_worker_first_of_data_witness:
  "qitems (car_data_request_queue pipeline2) =
      (''https://api.cars.co.za/fw/public/v2/specs/DEF/2021'', seed_def) # []
   \<and> 0 < unfinished_tasks (car_data_request_queue pipeline2)
   \<and> example_fetch (JStr ''https://api.cars.co.za/fw/public/v2/specs/DEF/2021'') =
       Inr (JObj [(''data'', JArr [])])
   \<and> getitem (JObj [(''data'', JArr [])]) ''data'' = Inr (JArr [])
   \<and> (\<exists>st'. car_data_worker_iter example_fetch pipeline2 = Some (Inr st')
      \<and> qitems (car_data_request_queue st') = []
      \<and> unfinished_tasks (car_data_request_queue st') + 1 =
          unfinished_tasks (car_data_request_queue pipeline2)
      \<and> car_data_result_queue st' = car_data_result_queue pipeline2
      \<and> error_log st' = error_log pipeline2 @ [IndexError])
   \<and> qitems (car_data_request_queue pipeline1) =
      (''https://api.cars.co.za/fw/public/v2/specs/ABC/2020'', seed_abc) # tl page_requests
   \<and> 0 < unfinished_tasks (car_data_request_queue pipeline1)
   \<and> example_fetch (JStr ''https://api.cars.co.za/fw/public/v2/specs/ABC/2020'') =
       Inr (JObj [(''data'', JArr [engine_spec, JStr ''second''])])
   \<and> getitem (JObj [(''data'', JArr [engine_spec, JStr ''second''])]) ''data'' =
       Inr (JArr [engine_spec, JStr ''second''])
   \<and> (\<exists>st'. car_data_worker_iter example_fetch pipeline1 = Some (Inr st')
      \<and> qitems (car_data_result_queue st') =
          qitems (car_data_result_queue pipeline1)
            @ [JObj [(''car_attrs'', seed_abc), (''car_specs'', engine_spec)]]
      \<and> error_log st' = error_log pipeline1)"
proof -
  have h1: "qitems (car_data_request_queue pipeline2) =
      (''https://api.cars.co.za/fw/public/v2/specs/DEF/2021'', seed_def) # []"
    by (simp add: pipeline2_def page_requests_def)
  have h2: "0 < unfinished_tasks (car_data_request_queue pipeline2)"
    by (simp add: pipeline2_def)
  have h3: "example_fetch (JStr ''https://api.cars.co.za/fw/public/v2/specs/DEF/2021'') =
       Inr (JObj [(''data'', JArr [])])"
    by (simp add: example_fetch_def)
  have h4: "getitem (JObj [(''data'', JArr [])]) ''data'' = Inr (JArr [])"
    by simp
  from car_data_worker_first_of_data[where fetch = example_fetch, OF h1 h2 h3 h4]
  have "\<exists>st'. car_data_worker_iter example_fetch pipeline2 = Some (Inr st')
      \<and> qitems (car_data_request_queue st') = []
      \<and> unfinished_tasks (car_data_request_queue st') + 1 =
          unfinished_tasks (car_data_request_queue pipeline2)
      \<and> car_data_result_queue st' = car_data_result_queue pipeline2
      \<and> error_log st' = error_log pipeline2 @ [IndexError]"
    by simp
  note none = this
  have g1: "qitems (car_data_request_queue pipeline1) =
      (''https://api.cars.co.za/fw/public/v2/specs/ABC/2020'', seed_abc) # tl page_requests"
    by (simp add: pipeline1_def page_requests_def)
  have g2: "0 < unfinished_tasks (car_data_request_queue pipeline1)"
    by (simp add: pipeline1_def)
  have g3: "example_fetch (JStr ''https://api.cars.co.za/fw/public/v2/specs/ABC/2020'') =
       Inr (JObj [(''data'', JArr [engine_spec, JStr ''second''])])"
    by (simp add: example_fetch_def)
  have g4: "getitem (JObj [(''data'', JArr [engine_spec, JStr ''second''])]) ''data'' =
       Inr (JArr [engine_spec, JStr ''second''])"
    by simp
  from car_data_worker_first_of_data[where fetch = example_fetch, OF g1 g2 g3 g4]
  have first: "\<exists>st'. car_data_worker_iter example_fetch pipeline1 = Some (Inr st')
      \<and> qitems (car_data_result_queue st') =
          qitems (car_data_result_queue pipeline1)
            @ [JObj [(''car_attrs'', seed_abc), (''car_specs'', engine_spec)]]
      \<and> error_log st' = error_log pipeline1"
    by auto
  from h1 h2 h3 h4 none g1 g2 g3 g4 first show ?thesis by blast
qed

lemma car_data_worker_example:
  "car_data_worker_iter example_fetch pipeline1 = Some (Inr pipeline2)"
  by (simp add: car_data_worker_iter_def car_data_work_def task_done_def put_def Let_def
      example_defs)

section \<open>Flattening: properties\<close>

lemmas flat_defs = flatten_car_data_def image_entries_def join_comma_def dict_update_def
  lower_ascii_def seed_attr_def Let_def

lemma map_of_dict_update_other:
  "k \<notin> fst ` set new \<Longrightarrow> map_of (dict_update d new) k = map_of d k"
  unfolding dict_update_def
  by (induction new arbitrary: d) (auto simp: update_conv')

lemma map_of_dict_update_new:
  "distinct (map fst new) \<Longrightarrow> map_of new k = Some v \<Longrightarrow> map_of (dict_update d new) k = Some v"
proof (induction new arbitrary: d)
  case Nil
  then show ?case by simp
next
  case (Cons x xs)
  have step: "dict_update d (x # xs) = dict_update (AList.update (fst x) (snd x) d) xs"
    by (simp add: dict_update_def)
  show ?case
  proof (cases "k = fst x")
    case True
    with Cons.prems have v: "v = snd x" and fresh: "k \<notin> fst ` set xs" by auto
    from fresh have "map_of (dict_update (AList.update (fst x) (snd x) d) xs) k
                       = map_of (AList.update (fst x) (snd x) d) k"
      by (rule map_of_dict_update_other)
    with True v step show ?thesis by (simp add: update_conv')
  next
    case False
    with Cons.prems have "distinct (map fst xs)" "map_of xs k = Some v" by auto
    from Cons.IH[OF this] step show ?thesis by simp
  qed
qed

lemma map_of_image_entries:
  "map_of (image_entries entries) (''image_'' @ k) = map_of entries k"
  by (induction entries) (auto simp: image_entries_def)

lemma distinct_image_entries:
  "distinct (map fst entries) \<Longrightarrow> distinct (map fst (image_entries entries))"
  by (induction entries) (auto simp: image_entries_def)

lemma fst_image_entries:
  "k \<in> fst ` set (image_entries entries) \<longleftrightarrow>
     prefix ''image_'' k \<and> drop 6 k \<in> fst ` set entries"
proof
  assume "k \<in> fst ` set (image_entries entries)"
  then obtain f v where "(f, v) \<in> set entries" "k = ''image_'' @ f"
    by (auto simp: image_entries_def)
  then show "prefix ''image_'' k \<and> drop 6 k \<in> fst ` set entries"
    by force
next
  assume "prefix ''image_'' k \<and> drop 6 k \<in> fst ` set entries"
  then obtain f v where k: "k = ''image_'' @ f" and "(drop 6 k, v) \<in> set entries"
    by (auto simp: prefix_def)
  then have "(f, v) \<in> set entries" by simp
  then have "(''image_'' @ f, v) \<in> set (image_entries entries)"
    by (force simp: image_entries_def)
  with k show "k \<in> fst ` set (image_entries entries)" by force
qed

lemma getitem_with_car_attrs:
  "getitem car_data ''car_attrs'' = Inr old \<Longrightarrow>
   getitem (with_car_attrs car_data a) k =
     (if k = ''car_attrs'' then Inr (JObj a) else getitem car_data k)"
  by (cases car_data) (auto simp: update_conv' split: option.splits)

text \<open>What a call that returns has gone through.\<close>

lemma flatten_car_data_returns:
  "fst (flatten_car_data lower car_data) = Inr r \<Longrightarrow>
   \<exists>kvs car_specs types joined entries specs ncs.
     getitem car_data ''car_attrs'' = Inr (JObj kvs)
     \<and> getitem car_data ''car_specs'' = Inr car_specs
     \<and> map_of kvs ''seller_types'' = Some types
     \<and> join_comma types = Inr joined
     \<and> map_of kvs ''image'' = Some (JObj entries)
     \<and> py_iter car_specs = Inr specs
     \<and> spec_dicts lower specs [] = Inr ncs
     \<and> flatten_car_data lower car_data =
         (Inr (JObj (dict_update
                      (dict_update
                         (AList.delete ''image'' (AList.update ''seller_types'' (JStr joined) kvs))
                         (image_entries entries))
                      ncs)),
          with_car_attrs car_data
            (dict_update
               (AList.delete ''image'' (AList.update ''seller_types'' (JStr joined) kvs))
               (image_entries entries)))"
  by (auto simp add: flatten_car_data_def Let_def update_conv'
      split: sum.splits json.splits option.splits)

lemma flatten_record0:
  "flatten_car_data lower_ascii record0 =
     (Inr (JObj [(''code'', JStr ''ABC''), (''year'', JInt 2020),
                 (''seller_types'', JStr ''Dealer,Private''), (''image_url'', JStr ''u.jpg''),
                 (''engine_power_max'', JStr ''100kW'')]),
      JObj [(''car_attrs'', JObj [(''code'', JStr ''ABC''), (''year'', JInt 2020),
                                  (''seller_types'', JStr ''Dealer,Private''),
                                  (''image_url'', JStr ''u.jpg'')]),
            (''car_specs'', engine_spec)])"
  by (simp add: flat_defs record0_def engine_spec_def)

text \<open>
  C9, as the claim states it, fails. After the record of the example was flattened, its
  seed attributes are not what they were: the list of seller types has become one
  string, and the image is gone.
\<close>

theorem flatten_car_data_mutates_counterexample:
  "seed_attr record0 ''seller_types'' = Inr (JArr [JStr ''Dealer'', JStr ''Private''])
   \<and> seed_attr (snd (flatten_car_data lower_ascii record0)) ''seller_types''
       = Inr (JStr ''Dealer,Private'')
   \<and> seed_attr record0 ''image'' = Inr (JObj [(''url'', JStr ''u.jpg'')])
   \<and> seed_attr (snd (flatten_car_data lower_ascii record0)) ''image''
       = Inl (KeyError (JStr ''image''))
   \<and> snd (flatten_car_data lower_ascii record0) \<noteq> record0"
  by (simp add: flatten_record0) (simp add: record0_def seed_attr_def)

text \<open>
  C9, amended. Whatever happens in the call, flattening leaves the detail payload of
  the record unchanged, and every seed attribute other than \<^verbatim>\<open>seller_types\<close>,
  \<^verbatim>\<open>image\<close> and the keys that begin with \<^verbatim>\<open>image_\<close>. It writes to the seed attributes
  of its argument. When it returns a value: \<^verbatim>\<open>seller_types\<close> holds the comma-joined
  string; \<^verbatim>\<open>image\<close> is removed; each field \<open>k\<close> of the image is stored under
  \<^verbatim>\<open>image_k\<close>; a key that begins with \<^verbatim>\<open>image_\<close> and is no field of the image holds
  what it held. The value returned is a dict of its own: the seed attributes as they are
  after these writes, updated with the entries that the loops over the payload made.
\<close>

theorem flatten_car_data_frame:
  "getitem (snd (flatten_car_data lower car_data)) ''car_specs'' = getitem car_data ''car_specs''
   \<and> (k \<noteq> ''seller_types'' \<longrightarrow> k \<noteq> ''image'' \<longrightarrow> \<not> prefix ''image_'' k \<longrightarrow>
        seed_attr (snd (flatten_car_data lower car_data)) k = seed_attr car_data k)
   \<and> (fst (flatten_car_data lower car_data) = Inr r \<longrightarrow>
        seed_attr car_data ''seller_types'' = Inr types \<longrightarrow>
        join_comma types = Inr joined \<longrightarrow>
        seed_attr car_data ''image'' = Inr (JObj entries) \<longrightarrow>
        distinct (map fst entries) \<longrightarrow>
          seed_attr (snd (flatten_car_data lower car_data)) ''seller_types'' = Inr (JStr joined)
          \<and> seed_attr (snd (flatten_car_data lower car_data)) ''image''
              = Inl (KeyError (JStr ''image''))
          \<and> (\<forall>f v. map_of entries f = Some v \<longrightarrow>
                seed_attr (snd (flatten_car_data lower car_data)) (''image_'' @ f) = Inr v)
          \<and> (\<forall>k'. prefix ''image_'' k' \<longrightarrow> drop 6 k' \<notin> fst ` set entries \<longrightarrow>
                seed_attr (snd (flatten_car_data lower car_data)) k' = seed_attr car_data k')
          \<and> (\<exists>attrs' car_specs specs new_car_spec.
                getitem (snd (flatten_car_data lower car_data)) ''car_attrs'' = Inr (JObj attrs')
                \<and> getitem car_data ''car_specs'' = Inr car_specs
                \<and> py_iter car_specs = Inr specs
                \<and> spec_dicts lower specs [] = Inr new_car_spec
                \<and> r = JObj (dict_update attrs' new_car_spec)))"
proof (cases "getitem car_data ''car_attrs''")
  case (Inl e)
  then show ?thesis by (simp add: flatten_car_data_def seed_attr_def)
next
  case (Inr car_attrs)
  note w = getitem_with_car_attrs[OF Inr]
  have specs: "getitem (snd (flatten_car_data lower car_data)) ''car_specs''
                 = getitem car_data ''car_specs''"
    using Inr
    by (simp add: flatten_car_data_def Let_def w split: sum.splits json.splits option.splits)
  have attrs: "seed_attr (snd (flatten_car_data lower car_data)) k = seed_attr car_data k"
    if "k \<noteq> ''seller_types''" "k \<noteq> ''image''" "\<not> prefix ''image_'' k"
  proof -
    have nk: "k \<notin> fst ` set (image_entries es)" for es
      using that(3) by (simp add: fst_image_entries)
    show ?thesis
      using Inr that(1,2)
      by (simp add: flatten_car_data_def seed_attr_def Let_def w update_conv' delete_conv'
          map_of_dict_update_other[OF nk]
          split: sum.splits json.splits option.splits)
  qed
  have written:
    "seed_attr (snd (flatten_car_data lower car_data)) ''seller_types'' = Inr (JStr joined)
     \<and> seed_attr (snd (flatten_car_data lower car_data)) ''image''
         = Inl (KeyError (JStr ''image''))
     \<and> (\<forall>f v. map_of entries f = Some v \<longrightarrow>
           seed_attr (snd (flatten_car_data lower car_data)) (''image_'' @ f) = Inr v)
     \<and> (\<forall>k'. prefix ''image_'' k' \<longrightarrow> drop 6 k' \<notin> fst ` set entries \<longrightarrow>
           seed_attr (snd (flatten_car_data lower car_data)) k' = seed_attr car_data k')
     \<and> (\<exists>attrs' car_specs specs new_car_spec.
           getitem (snd (flatten_car_data lower car_data)) ''car_attrs'' = Inr (JObj attrs')
           \<and> getitem car_data ''car_specs'' = Inr car_specs
           \<and> py_iter car_specs = Inr specs
           \<and> spec_dicts lower specs [] = Inr new_car_spec
           \<and> r = JObj (dict_update attrs' new_car_spec))"
    if ret: "fst (flatten_car_data lower car_data) = Inr r"
       and ty: "seed_attr car_data ''seller_types'' = Inr types"
       and jo: "join_comma types = Inr joined"
       and im: "seed_attr car_data ''image'' = Inr (JObj entries)"
       and di: "distinct (map fst entries)"
  proof -
    from flatten_car_data_returns[OF ret] obtain kvs car_specs types' joined' entries' specs ncs
      where ca: "getitem car_data ''car_attrs'' = Inr (JObj kvs)"
        and cs: "getitem car_data ''car_specs'' = Inr car_specs"
        and ty': "map_of kvs ''seller_types'' = Some types'"
        and jo': "join_comma types' = Inr joined'"
        and im': "map_of kvs ''image'' = Some (JObj entries')"
        and it: "py_iter car_specs = Inr specs"
        and sd: "spec_dicts lower specs [] = Inr ncs"
        and fl: "flatten_car_data lower car_data =
         (Inr (JObj (dict_update
                      (dict_update
                         (AList.delete ''image'' (AList.update ''seller_types'' (JStr joined') kvs))
                         (image_entries entries'))
                      ncs)),
          with_car_attrs car_data
            (dict_update
               (AList.delete ''image'' (AList.update ''seller_types'' (JStr joined') kvs))
               (image_entries entries')))"
      by blast
    from ca ty ty' have "types' = types" by (simp add: seed_attr_def)
    with jo jo' have j: "joined' = joined" by simp
    from ca im im' have e: "entries' = entries" by (simp add: seed_attr_def)
    define a2 where
      "a2 = AList.delete ''image'' (AList.update ''seller_types'' (JStr joined) kvs)"
    define a3 where "a3 = dict_update a2 (image_entries entries)"
    from fl j e have after: "snd (flatten_car_data lower car_data) = with_car_attrs car_data a3"
      and res: "r = JObj (dict_update a3 ncs)"
      using ret by (simp_all add: a2_def a3_def)
    have seed: "seed_attr (snd (flatten_car_data lower car_data)) x =
                  (case map_of a3 x of None \<Rightarrow> Inl (KeyError (JStr x)) | Some v \<Rightarrow> Inr v)" for x
      by (simp add: after seed_attr_def getitem_with_car_attrs[OF ca])
    have old: "seed_attr car_data x =
                  (case map_of kvs x of None \<Rightarrow> Inl (KeyError (JStr x)) | Some v \<Rightarrow> Inr v)" for x
      by (simp add: seed_attr_def ca)
    have p1: "''seller_types'' \<notin> fst ` set (image_entries entries)"
      by (simp add: fst_image_entries)
    have p2: "''image'' \<notin> fst ` set (image_entries entries)"
      by (simp add: fst_image_entries)
    have c1: "seed_attr (snd (flatten_car_data lower car_data)) ''seller_types'' = Inr (JStr joined)"
      by (simp add: seed a3_def a2_def map_of_dict_update_other[OF p1] update_conv' delete_conv')
    have c2: "seed_attr (snd (flatten_car_data lower car_data)) ''image''
                = Inl (KeyError (JStr ''image''))"
      by (simp add: seed a3_def a2_def map_of_dict_update_other[OF p2] delete_conv')
    have c3: "seed_attr (snd (flatten_car_data lower car_data)) (''image_'' @ f) = Inr v"
      if "map_of entries f = Some v" for f v
    proof -
      from that have "map_of (image_entries entries) (''image_'' @ f) = Some v"
        by (simp only: map_of_image_entries)
      from map_of_dict_update_new[OF distinct_image_entries[OF di] this]
      have "map_of a3 (''image_'' @ f) = Some v" by (simp only: a3_def)
      then show ?thesis by (simp only: seed option.case)
    qed
    have c4: "seed_attr (snd (flatten_car_data lower car_data)) k' = seed_attr car_data k'"
      if "prefix ''image_'' k'" "drop 6 k' \<notin> fst ` set entries" for k'
    proof -
      from that(2) have nk: "k' \<notin> fst ` set (image_entries entries)"
        by (simp add: fst_image_entries)
      from that(1) have ne: "k' \<noteq> ''seller_types''" "k' \<noteq> ''image''" by auto
      have "map_of a3 k' = map_of kvs k'"
        using ne by (simp add: a3_def a2_def map_of_dict_update_other[OF nk] update_conv' delete_conv')
      then show ?thesis by (simp add: seed old)
    qed
    have c5: "\<exists>attrs' car_specs specs new_car_spec.
           getitem (snd (flatten_car_data lower car_data)) ''car_attrs'' = Inr (JObj attrs')
           \<and> getitem car_data ''car_specs'' = Inr car_specs
           \<and> py_iter car_specs = Inr specs
           \<and> spec_dicts lower specs [] = Inr new_car_spec
           \<and> r = JObj (dict_update attrs' new_car_spec)"
      using cs it sd res by (auto simp add: after getitem_with_car_attrs[OF ca])
    from c1 c2 c3 c4 c5 show ?thesis by blast
  qed
  from specs attrs written show ?thesis by blast
qed

theorem flatten_car_data_frame_witness:
  "''code'' \<noteq> ''seller_types'' \<and> ''code'' \<noteq> ''image'' \<and> \<not> prefix ''image_'' ''code''
   \<and> fst (flatten_car_data lower_ascii record0) =
       Inr (JObj [(''code'', JStr ''ABC''), (''year'', JInt 2020),
                  (''seller_types'', JStr ''Dealer,Private''), (''image_url'', JStr ''u.jpg''),
                  (''engine_power_max'', JStr ''100kW'')])
   \<and> seed_attr record0 ''seller_types'' = Inr (JArr [JStr ''Dealer'', JStr ''Private''])
   \<and> join_comma (JArr [JStr ''Dealer'', JStr ''Private'']) = Inr ''Dealer,Private''
   \<and> seed_attr record0 ''image'' = Inr (JObj [(''url'', JStr ''u.jpg'')])
   \<and> distinct (map fst [(''url'', JStr ''u.jpg'')])
   \<and> map_of [(''url'', JStr ''u.jpg'')] ''url'' = Some (JStr ''u.jpg'')
   \<and> getitem (snd (flatten_car_data lower_ascii record0)) ''car_specs''
       = getitem record0 ''car_specs''
   \<and> seed_attr (snd (flatten_car_data lower_ascii record0)) ''code'' = seed_attr record0 ''code''
   \<and> seed_attr (snd (flatten_car_data lower_ascii record0)) ''seller_types''
       = Inr (JStr ''Dealer,Private'')
   \<and> seed_attr (snd (flatten_car_data lower_ascii record0)) ''image''
       = Inl (KeyError (JStr ''image''))
   \<and> seed_attr (snd (flatten_car_data lower_ascii record0)) (''image_'' @ ''url'')
       = Inr (JStr ''u.jpg'')"
proof -
  have k: "''code'' \<noteq> ''seller_types'' \<and> ''code'' \<noteq> ''image'' \<and> \<not> prefix ''image_'' ''code''"
    by simp
  have r: "fst (flatten_car_data lower_ascii record0) =
       Inr (JObj [(''code'', JStr ''ABC''), (''year'', JInt 2020),
                  (''seller_types'', JStr ''Dealer,Private''), (''image_url'', JStr ''u.jpg''),
                  (''engine_power_max'', JStr ''100kW'')])"
    by (simp add: flatten_record0)
  have t: "seed_attr record0 ''seller_types'' = Inr (JArr [JStr ''Dealer'', JStr ''Private''])"
    by (simp add: record0_def seed_attr_def)
  have j: "join_comma (JArr [JStr ''Dealer'', JStr ''Private'']) = Inr ''Dealer,Private''"
    by (simp add: join_comma_def)
  have i: "seed_attr record0 ''image'' = Inr (JObj [(''url'', JStr ''u.jpg'')])"
    by (simp add: record0_def seed_attr_def)
  have d: "distinct (map fst [(''url'', JStr ''u.jpg'')])"
    by simp
  have u: "map_of [(''url'', JStr ''u.jpg'')] ''url'' = Some (JStr ''u.jpg'')"
    by simp
  note th = flatten_car_data_frame
         [where lower = lower_ascii and car_data = record0 and k = "''code''"
            and r = "JObj [(''code'', JStr ''ABC''), (''year'', JInt 2020),
                  (''seller_types'', JStr ''Dealer,Private''), (''image_url'', JStr ''u.jpg''),
                  (''engine_power_max'', JStr ''100kW'')]"
            and types = "JArr [JStr ''Dealer'', JStr ''Private'']"
            and joined = "''Dealer,Private''"
            and entries = "[(''url'', JStr ''u.jpg'')]"]
  from th k r t j i d u show ?thesis by blast
qed

end
